theory Spec2Isabelle
  imports Complex_Main "HOL-Library.Multiset"
begin

section \<open>Kernel and gradient correction of pysph (pysph/sph/wc/kernel\_correction.py)\<close>

text \<open>
  The module holds four equations of a particle method. Each is a class whose methods
  receive the particle arrays (\<open>d_*\<close> of the destination, \<open>s_*\<close> of the sources) and
  the indices \<open>d_idx\<close>, \<open>s_idx\<close>, and update some of the arrays in place.

  Modelling decisions.
  \<^item> Numbers are exact: a float is a \<open>real\<close>, \<open>sqrt\<close> and \<open>abs\<close> are the real ones.
    Rounding and overflow are not part of this model.
  \<^item> The elements of the particle arrays are Python floats, and so are \<open>WIJ\<close> and the
    results of \<open>sqrt\<close>: a division of two of them by zero raises \<open>ZeroDivisionError\<close>.
  \<^item> The elements of an array declared with \<open>declare('matrix(n)')\<close> are numpy floats (C
    doubles in the compiled code). A division with such a dividend does not raise: on a zero
    divisor the quotient is an infinity or NaN, and so is everything computed from it. A
    number that may be an infinity or NaN is a \<open>real option\<close>, with \<open>None\<close> for all three.
    The division by \<open>r\<close> stands under the guard \<open>r >= 1.0e-12\<close>, where the two kinds of
    division agree.
  \<^item> An array is a list, an index is a natural number, and an access out of range
    raises \<open>IndexError\<close>.
  \<^item> A method returns the arrays it assigns to; an exception is the value \<open>Inl\<close>.
  \<^item> \<open>for i in range(n)\<close> is \<open>for_r [0..<n]\<close>, which runs the body on each index in
    turn and stops at the first exception.
\<close>

subsection \<open>Exceptions, arrays and loops\<close>

datatype error = ZeroDivisionError | IndexError

type_synonym 'a result = "error + 'a"

definition bind_r :: "'a result \<Rightarrow> ('a \<Rightarrow> 'b result) \<Rightarrow> 'b result" where
  "bind_r m f = (case m of Inl e \<Rightarrow> Inl e | Inr v \<Rightarrow> f v)"

text \<open>\<open>xs[i]\<close> as an expression.\<close>

definition rd :: "'a list \<Rightarrow> nat \<Rightarrow> 'a result" where
  "rd xs i = (if i < length xs then Inr (xs ! i) else Inl IndexError)"

text \<open>\<open>xs[i] = v\<close>.\<close>

definition wr :: "'a list \<Rightarrow> nat \<Rightarrow> 'a \<Rightarrow> 'a list result" where
  "wr xs i v = (if i < length xs then Inr (xs[i := v]) else Inl IndexError)"

text \<open>\<open>a / b\<close> on Python floats.\<close>

definition fdiv :: "real \<Rightarrow> real \<Rightarrow> real result" where
  "fdiv a b = (if b = 0 then Inl ZeroDivisionError else Inr (a / b))"

text \<open>
  \<open>a / b\<close> and \<open>a + b\<close> on numpy floats, and \<open>a <= t\<close> for a numpy float \<open>a\<close> and a
  finite \<open>t\<close>: a comparison with NaN is false, and the infinity that a quotient of this
  module can be is the positive one.
\<close>

type_synonym npfloat = "real option"

definition np_div :: "real \<Rightarrow> real \<Rightarrow> npfloat" where
  "np_div a b = (if b = 0 then None else Some (a / b))"

definition np_add :: "npfloat \<Rightarrow> npfloat \<Rightarrow> npfloat" where
  "np_add a b = (case a of None \<Rightarrow> None | Some x \<Rightarrow> (case b of None \<Rightarrow> None | Some y \<Rightarrow> Some (x + y)))"

definition np_le :: "npfloat \<Rightarrow> real \<Rightarrow> bool" where
  "np_le a t = (case a of None \<Rightarrow> False | Some x \<Rightarrow> x \<le> t)"

primrec for_r :: "'i list \<Rightarrow> ('i \<Rightarrow> 's \<Rightarrow> 's result) \<Rightarrow> 's \<Rightarrow> 's result" where
  "for_r [] body s = Inr s"
| "for_r (i # is) body s = bind_r (body i s) (for_r is body)"

subsection \<open>KernelCorrection\<close>

text \<open>
  \<^verbatim>\<open>
  def initialize(self, d_idx, d_cwij):
      d_cwij[d_idx] = 0.0

  def loop(self, d_idx, s_idx, d_cwij, s_m, s_rho, WIJ):
      d_cwij[d_idx] += s_m[s_idx] * WIJ / s_rho[s_idx]
  \<close>
  The augmented assignment reads its target first, then evaluates the right-hand side
  \<open>(s_m[s_idx] * WIJ) / s_rho[s_idx]\<close>, then stores.
\<close>

definition KernelCorrection_initialize :: "nat \<Rightarrow> real list \<Rightarrow> real list result" where
  "KernelCorrection_initialize d_idx d_cwij = wr d_cwij d_idx 0"

definition KernelCorrection_loop ::
  "nat \<Rightarrow> nat \<Rightarrow> real list \<Rightarrow> real list \<Rightarrow> real list \<Rightarrow> real \<Rightarrow> real list result" where
  "KernelCorrection_loop d_idx s_idx d_cwij s_m s_rho WIJ =
     bind_r (rd d_cwij d_idx) (\<lambda>c.
     bind_r (rd s_m s_idx) (\<lambda>m.
     bind_r (rd s_rho s_idx) (\<lambda>rho.
     bind_r (fdiv (m * WIJ) rho) (\<lambda>q.
     wr d_cwij d_idx (c + q)))))"

text \<open>
  Modelled from the spec: the equation scheduler, which is not part of this module. For
  one destination particle it calls \<open>initialize\<close> once and then \<open>loop\<close> once for each
  neighbour \<open>s_idx\<close> of the neighbour list, in order, with the kernel value \<open>WIJ\<close> of
  the pair; \<open>W s_idx\<close> stands for that value.
\<close>

definition KernelCorrection_run ::
  "(nat \<Rightarrow> real) \<Rightarrow> nat \<Rightarrow> nat list \<Rightarrow> real list \<Rightarrow> real list \<Rightarrow> real list \<Rightarrow> real list result" where
  "KernelCorrection_run W d_idx nbrs d_cwij s_m s_rho =
     bind_r (KernelCorrection_initialize d_idx d_cwij)
       (for_r nbrs (\<lambda>s_idx c. KernelCorrection_loop d_idx s_idx c s_m s_rho (W s_idx)))"

subsection \<open>The collaborators: kernel evaluator and linear solver\<close>

text \<open>
  Modelled from the spec: the pairwise kernel evaluator \<open>KERNEL\<close>, which is not part of
  this module. \<open>KERNEL.kernel(xij, r, hij)\<close> returns the kernel value and
  \<open>KERNEL.gradient(xij, r, hij, dwij)\<close> stores the three components of the gradient in
  \<open>dwij\<close>. Both are parameters of the model: \<open>K xij r hij\<close> is the value and
  \<open>G xij r hij\<close> the triple of components. They never raise.
\<close>

type_synonym kernel_fn = "real list \<Rightarrow> real \<Rightarrow> real \<Rightarrow> real"
type_synonym gradient_fn = "real list \<Rightarrow> real \<Rightarrow> real \<Rightarrow> real \<times> real \<times> real"

definition KERNEL_gradient :: "gradient_fn \<Rightarrow> real list \<Rightarrow> real \<Rightarrow> real \<Rightarrow> real list" where
  "KERNEL_gradient G xij r hij = (case G xij r hij of (g0, g1, g2) \<Rightarrow> [g0, g1, g2])"

text \<open>
  Modelled from the spec: the linear solver \<open>gj_solve(A, b, n, result)\<close> of
  pysph.sph.wc.density\_correction, which is not part of this module. Given the
  flattened \<open>n\<close> by \<open>n\<close> matrix \<open>A\<close> and the vector \<open>b\<close> it stores a solution in
  \<open>result[0..n-1]\<close>; it is deterministic, leaves \<open>A\<close> and \<open>b\<close> as they are and
  signals no failure. The parameter \<open>S A b n\<close> is the solution, component by
  component.
\<close>

type_synonym solver_fn = "real list \<Rightarrow> real list \<Rightarrow> nat \<Rightarrow> nat \<Rightarrow> real"

definition gj_solve :: "solver_fn \<Rightarrow> real list \<Rightarrow> real list \<Rightarrow> nat \<Rightarrow> real list \<Rightarrow> real list result" where
  "gj_solve S A b n result = for_r [0..<n] (\<lambda>i res. wr res i (S A b n i)) result"

subsection \<open>Code shared by the two assemblers\<close>

text \<open>
  \<^verbatim>\<open>
  xij[0] = x - s_x[s_idx]
  xij[1] = y - s_y[s_idx]
  xij[2] = z - s_z[s_idx]
  \<close>
  \<open>xij\<close> is declared \<open>matrix(3)\<close> and all of it is assigned for each neighbour.
\<close>

definition displacement ::
  "real \<Rightarrow> real \<Rightarrow> real \<Rightarrow> real list \<Rightarrow> real list \<Rightarrow> real list \<Rightarrow> nat \<Rightarrow> real list result" where
  "displacement x y z s_x s_y s_z s_idx =
     bind_r (rd s_x s_idx) (\<lambda>sx.
     bind_r (rd s_y s_idx) (\<lambda>sy.
     bind_r (rd s_z s_idx) (\<lambda>sz.
     Inr [x - sx, y - sy, z - sz])))"

text \<open>\<open>sqrt(v[0] * v[0] + v[1] * v[1] + v[2] * v[2])\<close>\<close>

definition norm3 :: "real list \<Rightarrow> real result" where
  "norm3 v =
     bind_r (rd v 0) (\<lambda>a.
     bind_r (rd v 1) (\<lambda>b.
     bind_r (rd v 2) (\<lambda>c.
     Inr (sqrt (a * a + b * b + c * c)))))"

text \<open>\<open>V = s_m[s_idx] / s_rho[s_idx]\<close>\<close>

definition volume :: "real list \<Rightarrow> real list \<Rightarrow> nat \<Rightarrow> real result" where
  "volume s_m s_rho s_idx =
     bind_r (rd s_m s_idx) (\<lambda>m.
     bind_r (rd s_rho s_idx) (\<lambda>rho.
     fdiv m rho))"

text \<open>
  \<^verbatim>\<open>
  if r >= 1.0e-12:
      for i in range(n):
          xi = xij[i]
          for j in range(n):
              xj = xij[j]
              d_m_mat[9 * d_idx + 3 * i + j] += dw * V * xi * xj / r
  \<close>
\<close>

definition accumulate :: "nat \<Rightarrow> nat \<Rightarrow> real list \<Rightarrow> real \<Rightarrow> real \<Rightarrow> real \<Rightarrow> real list \<Rightarrow> real list result" where
  "accumulate n d_idx xij dw V r d_m_mat =
     (if r \<ge> 1 / 10 ^ 12 then
        for_r [0..<n] (\<lambda>i m.
          bind_r (rd xij i) (\<lambda>xi.
          for_r [0..<n] (\<lambda>j m.
            bind_r (rd xij j) (\<lambda>xj.
            bind_r (rd m (9 * d_idx + 3 * i + j)) (\<lambda>old.
            bind_r (fdiv (dw * V * xi * xj) r) (\<lambda>q.
            wr m (9 * d_idx + 3 * i + j) (old + q))))) m)) d_m_mat
      else Inr d_m_mat)"

subsection \<open>GradientCorrectionPreStep\<close>

text \<open>
  \<^verbatim>\<open>
  def initialize(self, d_idx, d_m_mat):
      for i in range(9):
          d_m_mat[9 * d_idx + i] = 0.0
  \<close>
\<close>

definition GradientCorrectionPreStep_initialize :: "nat \<Rightarrow> real list \<Rightarrow> real list result" where
  "GradientCorrectionPreStep_initialize d_idx d_m_mat =
     for_r [0..<9] (\<lambda>i m. wr m (9 * d_idx + i) 0) d_m_mat"

text \<open>
  The body of \<open>for k in range(N_NBRS)\<close> in \<open>loop_all\<close>:
  \<^verbatim>\<open>
  s_idx = NBRS[k]
  xij[0] = x - s_x[s_idx]; xij[1] = y - s_y[s_idx]; xij[2] = z - s_z[s_idx]
  hij = (h + s_h[s_idx]) * 0.5
  r = sqrt(xij[0] * xij[0] + xij[1] * xij[1] + xij[2] * xij[2])
  KERNEL.gradient(xij, r, hij, dwij)
  dw = sqrt(dwij[0] * dwij[0] + dwij[1] * dwij[1] + dwij[2] * dwij[2])
  V = s_m[s_idx] / s_rho[s_idx]
  if r >= 1.0e-12: ...
  \<close>
\<close>

definition GradientCorrectionPreStep_neighbour ::
  "gradient_fn \<Rightarrow> nat \<Rightarrow> nat \<Rightarrow> real list \<Rightarrow> real list \<Rightarrow> real \<Rightarrow> real \<Rightarrow> real \<Rightarrow> real \<Rightarrow>
   real list \<Rightarrow> real list \<Rightarrow> real list \<Rightarrow> real list \<Rightarrow> nat \<Rightarrow> real list \<Rightarrow> real list result" where
  "GradientCorrectionPreStep_neighbour G n d_idx s_m s_rho x y z h s_x s_y s_z s_h s_idx d_m_mat =
     bind_r (displacement x y z s_x s_y s_z s_idx) (\<lambda>xij.
     bind_r (rd s_h s_idx) (\<lambda>sh.
     let hij = (h + sh) * 0.5 in
     bind_r (norm3 xij) (\<lambda>r.
     let dwij = KERNEL_gradient G xij r hij in
     bind_r (norm3 dwij) (\<lambda>dw.
     bind_r (volume s_m s_rho s_idx) (\<lambda>V.
     accumulate n d_idx xij dw V r d_m_mat)))))"

definition GradientCorrectionPreStep_loop_all ::
  "gradient_fn \<Rightarrow> nat \<Rightarrow> nat \<Rightarrow> real list \<Rightarrow> real list \<Rightarrow> real list \<Rightarrow> real list \<Rightarrow> real list \<Rightarrow>
   real list \<Rightarrow> real list \<Rightarrow> real list \<Rightarrow> real list \<Rightarrow> real list \<Rightarrow> real list \<Rightarrow> nat list \<Rightarrow> nat \<Rightarrow>
   real list result" where
  "GradientCorrectionPreStep_loop_all G self_dim d_idx d_m_mat s_m s_rho d_x d_y d_z d_h s_x s_y s_z s_h
       NBRS N_NBRS =
     bind_r (rd d_x d_idx) (\<lambda>x.
     bind_r (rd d_y d_idx) (\<lambda>y.
     bind_r (rd d_z d_idx) (\<lambda>z.
     bind_r (rd d_h d_idx) (\<lambda>h.
     for_r [0..<N_NBRS] (\<lambda>k m.
       bind_r (rd NBRS k) (\<lambda>s_idx.
       GradientCorrectionPreStep_neighbour G self_dim d_idx s_m s_rho x y z h s_x s_y s_z s_h s_idx m))
       d_m_mat))))"

text \<open>One assembly of a particle: \<open>initialize\<close>, then \<open>loop_all\<close>.\<close>

definition GradientCorrectionPreStep_run ::
  "gradient_fn \<Rightarrow> nat \<Rightarrow> nat \<Rightarrow> real list \<Rightarrow> real list \<Rightarrow> real list \<Rightarrow> real list \<Rightarrow> real list \<Rightarrow>
   real list \<Rightarrow> real list \<Rightarrow> real list \<Rightarrow> real list \<Rightarrow> real list \<Rightarrow> real list \<Rightarrow> nat list \<Rightarrow> nat \<Rightarrow>
   real list result" where
  "GradientCorrectionPreStep_run G self_dim d_idx d_m_mat s_m s_rho d_x d_y d_z d_h s_x s_y s_z s_h
       NBRS N_NBRS =
     bind_r (GradientCorrectionPreStep_initialize d_idx d_m_mat) (\<lambda>m.
     GradientCorrectionPreStep_loop_all G self_dim d_idx m s_m s_rho d_x d_y d_z d_h s_x s_y s_z s_h
       NBRS N_NBRS)"

subsection \<open>GradientCorrection\<close>

text \<open>
  \<^verbatim>\<open>
  def loop(self, d_idx, d_m_mat, DWIJ, HIJ):
      n = self.dim
      temp = declare('matrix(9)')
      res = declare('matrix(3)')
      eps = 1.0e-04 * HIJ
      for i in range(n):
          for j in range(n):
              temp[n * i + j] = d_m_mat[9 * d_idx + 3 * i + j]
      gj_solve(temp, DWIJ, n, res)
      change = 0.0
      for i in range(n):
          change += abs(DWIJ[i] - res[i]) / (abs(DWIJ[i]) + eps)
      if change <= self.tol:
          for i in range(n):
              DWIJ[i] = res[i]
  \<close>
  The declared arrays start filled with zeros. The method is given \<open>d_m_mat\<close> and
  \<open>DWIJ\<close>, and the model returns both as they are when the method ends. \<open>res\<close> is a
  declared array, so the quotients added to \<open>change\<close> are numpy's: with a denominator
  \<open>abs(DWIJ[i]) + eps\<close> equal to zero, \<open>change\<close> is an infinity or NaN from then on, the test
  \<open>change <= self.tol\<close> is false and \<open>DWIJ\<close> stays as it is.
\<close>

definition copy_block :: "nat \<Rightarrow> nat \<Rightarrow> real list \<Rightarrow> real list \<Rightarrow> real list result" where
  "copy_block n d_idx d_m_mat temp =
     for_r [0..<n] (\<lambda>i t.
       for_r [0..<n] (\<lambda>j t.
         bind_r (rd d_m_mat (9 * d_idx + 3 * i + j)) (\<lambda>v.
         wr t (n * i + j) v)) t) temp"

definition relative_change :: "nat \<Rightarrow> real list \<Rightarrow> real list \<Rightarrow> real \<Rightarrow> npfloat result" where
  "relative_change n DWIJ res eps =
     for_r [0..<n] (\<lambda>i change.
       bind_r (rd DWIJ i) (\<lambda>d.
       bind_r (rd res i) (\<lambda>x.
       bind_r (rd DWIJ i) (\<lambda>d'.
       Inr (np_add change (np_div (\<bar>d - x\<bar>) (\<bar>d'\<bar> + eps))))))) (Some 0)"

definition overwrite :: "nat \<Rightarrow> real list \<Rightarrow> real list \<Rightarrow> real list result" where
  "overwrite n res DWIJ =
     for_r [0..<n] (\<lambda>i D. bind_r (rd res i) (\<lambda>x. wr D i x)) DWIJ"

definition GradientCorrection_loop ::
  "solver_fn \<Rightarrow> nat \<Rightarrow> real \<Rightarrow> nat \<Rightarrow> real list \<Rightarrow> real list \<Rightarrow> real \<Rightarrow>
   (real list \<times> real list) result" where
  "GradientCorrection_loop S self_dim self_tol d_idx d_m_mat DWIJ HIJ =
     (let n = self_dim;
          eps = 1 / 10 ^ 4 * HIJ in
      bind_r (copy_block n d_idx d_m_mat (replicate 9 0)) (\<lambda>temp.
      bind_r (gj_solve S temp DWIJ n (replicate 3 0)) (\<lambda>res.
      bind_r (relative_change n DWIJ res eps) (\<lambda>change.
      if np_le change self_tol then
        bind_r (overwrite n res DWIJ) (\<lambda>D. Inr (d_m_mat, D))
      else Inr (d_m_mat, DWIJ)))))"

subsection \<open>MixedKernelCorrectionPreStep\<close>

text \<open>
  \<open>initialize\<close> is the one of GradientCorrectionPreStep, word for word.
\<close>

definition MixedKernelCorrectionPreStep_initialize :: "nat \<Rightarrow> real list \<Rightarrow> real list result" where
  "MixedKernelCorrectionPreStep_initialize d_idx d_m_mat =
     for_r [0..<9] (\<lambda>i m. wr m (9 * d_idx + i) 0) d_m_mat"

text \<open>
  The body of the first \<open>for k in range(N_NBRS)\<close>, on the state \<open>(den, numerator)\<close>:
  \<^verbatim>\<open>
  s_idx = NBRS[k]
  xij[0] = x - s_x[s_idx]; xij[1] = y - s_y[s_idx]; xij[2] = z - s_z[s_idx]
  V = s_m[s_idx] / s_rho[s_idx]
  rij = sqrt(xij[0] * xij[0] + xij[1] * xij[1] + xij[2] * xij[2])
  hij = (h + s_h[s_idx]) * 0.5
  KERNEL.gradient(xij, rij, hij, dwij)
  wij = KERNEL.kernel(xij, rij, hij)
  den += V * wij
  for i in range(n):
      numerator[i] += V * dwij[i]
  \<close>
\<close>

definition pass1_neighbour ::
  "kernel_fn \<Rightarrow> gradient_fn \<Rightarrow> nat \<Rightarrow> real \<Rightarrow> real \<Rightarrow> real \<Rightarrow> real \<Rightarrow>
   real list \<Rightarrow> real list \<Rightarrow> real list \<Rightarrow> real list \<Rightarrow> real list \<Rightarrow> real list \<Rightarrow> nat \<Rightarrow>
   real \<times> real list \<Rightarrow> (real \<times> real list) result" where
  "pass1_neighbour K G n x y z h s_x s_y s_z s_h s_m s_rho s_idx st =
     (case st of (den, numerator) \<Rightarrow>
     bind_r (displacement x y z s_x s_y s_z s_idx) (\<lambda>xij.
     bind_r (volume s_m s_rho s_idx) (\<lambda>V.
     bind_r (norm3 xij) (\<lambda>rij.
     bind_r (rd s_h s_idx) (\<lambda>sh.
     let hij = (h + sh) * 0.5;
         dwij = KERNEL_gradient G xij rij hij;
         wij = K xij rij hij in
     bind_r (for_r [0..<n] (\<lambda>i nu.
               bind_r (rd nu i) (\<lambda>old.
               bind_r (rd dwij i) (\<lambda>g.
               wr nu i (old + V * g)))) numerator) (\<lambda>numerator'.
     Inr (den + V * wij, numerator')))))))"

text \<open>
  The body of the second \<open>for k in range(N_NBRS)\<close>, on the state \<open>(dwij1, d_m_mat)\<close>:
  \<^verbatim>\<open>
  s_idx = NBRS[k]
  xij[0] = x - s_x[s_idx]; xij[1] = y - s_y[s_idx]; xij[2] = z - s_z[s_idx]
  hij = (h + s_h[s_idx]) * 0.5
  r = sqrt(xij[0] * xij[0] + xij[1] * xij[1] + xij[2] * xij[2])
  KERNEL.gradient(xij, r, hij, dwij)
  for i in range(n):
      dwij1[i] = (dwij[i] - numerator[i] / den) / den
  dw = sqrt(dwij1[0] * dwij1[0] + dwij1[1] * dwij1[1] + dwij1[2] * dwij1[2])
  V = s_m[s_idx] / s_rho[s_idx]
  if r >= 1.0e-12: ...
  \<close>
\<close>

definition debias :: "nat \<Rightarrow> real list \<Rightarrow> real list \<Rightarrow> real \<Rightarrow> npfloat list \<Rightarrow> npfloat list result" where
  "debias n dwij numerator den dwij1 =
     for_r [0..<n] (\<lambda>i d1.
       bind_r (rd dwij i) (\<lambda>g.
       bind_r (rd numerator i) (\<lambda>nu.
       let gamma = np_div nu den;
           v = (case gamma of None \<Rightarrow> None | Some c \<Rightarrow> np_div (g - c) den)
       in wr d1 i v))) dwij1"

text \<open>\<open>sqrt(v[0] * v[0] + v[1] * v[1] + v[2] * v[2])\<close> on numpy floats.\<close>

definition norm3_np :: "npfloat list \<Rightarrow> npfloat result" where
  "norm3_np v =
     bind_r (rd v 0) (\<lambda>a.
     bind_r (rd v 1) (\<lambda>b.
     bind_r (rd v 2) (\<lambda>c.
     Inr (case a of None \<Rightarrow> None | Some a' \<Rightarrow>
           (case b of None \<Rightarrow> None | Some b' \<Rightarrow>
             (case c of None \<Rightarrow> None | Some c' \<Rightarrow>
               Some (sqrt (a' * a' + b' * b' + c' * c'))))))))"

text \<open>
  The guarded double loop of this class, the same lines as in GradientCorrectionPreStep.
  Here \<open>dw\<close> may be an infinity or NaN, and then so is \<open>dw * V * xi * xj / r\<close> and the
  entry it is added to.
\<close>

definition accumulate_np ::
  "nat \<Rightarrow> nat \<Rightarrow> real list \<Rightarrow> npfloat \<Rightarrow> real \<Rightarrow> real \<Rightarrow> npfloat list \<Rightarrow> npfloat list result" where
  "accumulate_np n d_idx xij dw V r d_m_mat =
     (if r \<ge> 1 / 10 ^ 12 then
        for_r [0..<n] (\<lambda>i m.
          bind_r (rd xij i) (\<lambda>xi.
          for_r [0..<n] (\<lambda>j m.
            bind_r (rd xij j) (\<lambda>xj.
            bind_r (rd m (9 * d_idx + 3 * i + j)) (\<lambda>old.
            let q = (case dw of None \<Rightarrow> None | Some g \<Rightarrow> np_div (g * V * xi * xj) r)
            in wr m (9 * d_idx + 3 * i + j) (np_add old q)))) m)) d_m_mat
      else Inr d_m_mat)"

definition pass2_neighbour ::
  "gradient_fn \<Rightarrow> nat \<Rightarrow> nat \<Rightarrow> real \<Rightarrow> real \<Rightarrow> real \<Rightarrow> real \<Rightarrow>
   real list \<Rightarrow> real list \<Rightarrow> real list \<Rightarrow> real list \<Rightarrow> real list \<Rightarrow> real list \<Rightarrow>
   real list \<Rightarrow> real \<Rightarrow> nat \<Rightarrow> npfloat list \<times> npfloat list \<Rightarrow>
   (npfloat list \<times> npfloat list) result" where
  "pass2_neighbour G n d_idx x y z h s_x s_y s_z s_h s_m s_rho numerator den s_idx st =
     (case st of (dwij1, d_m_mat) \<Rightarrow>
     bind_r (displacement x y z s_x s_y s_z s_idx) (\<lambda>xij.
     bind_r (rd s_h s_idx) (\<lambda>sh.
     let hij = (h + sh) * 0.5 in
     bind_r (norm3 xij) (\<lambda>r.
     let dwij = KERNEL_gradient G xij r hij in
     bind_r (debias n dwij numerator den dwij1) (\<lambda>dwij1'.
     bind_r (norm3_np dwij1') (\<lambda>dw.
     bind_r (volume s_m s_rho s_idx) (\<lambda>V.
     bind_r (accumulate_np n d_idx xij dw V r d_m_mat) (\<lambda>m.
     Inr (dwij1', m)))))))))"

text \<open>
  \<open>loop_all\<close>: the four reads of the destination particle, the zeroing of
  \<open>numerator\<close> and \<open>dwij1\<close> and of \<open>den\<close>, pass 1, \<open>d_cwij[d_idx] = den\<close>, pass 2.
  It returns \<open>(d_m_mat, d_cwij)\<close>. The array \<open>d_m_mat\<close> it is given holds finite numbers
  (\<open>Some\<close>); in the one it returns, pass 2 may have stored an infinity or NaN.
\<close>

definition MixedKernelCorrectionPreStep_loop_all ::
  "kernel_fn \<Rightarrow> gradient_fn \<Rightarrow> nat \<Rightarrow> nat \<Rightarrow> real list \<Rightarrow> real list \<Rightarrow> real list \<Rightarrow> real list \<Rightarrow>
   real list \<Rightarrow> real list \<Rightarrow> real list \<Rightarrow> real list \<Rightarrow> nat \<Rightarrow> nat list \<Rightarrow> real list \<Rightarrow>
   real list \<Rightarrow> real list \<Rightarrow> real list \<Rightarrow> (npfloat list \<times> real list) result" where
  "MixedKernelCorrectionPreStep_loop_all K G self_dim d_idx d_x d_y d_z d_h s_x s_y s_z s_h
       N_NBRS NBRS d_m_mat s_m s_rho d_cwij =
     bind_r (rd d_x d_idx) (\<lambda>x.
     bind_r (rd d_y d_idx) (\<lambda>y.
     bind_r (rd d_z d_idx) (\<lambda>z.
     bind_r (rd d_h d_idx) (\<lambda>h.
     bind_r (for_r [0..<N_NBRS] (\<lambda>k st.
               bind_r (rd NBRS k) (\<lambda>s_idx.
               pass1_neighbour K G self_dim x y z h s_x s_y s_z s_h s_m s_rho s_idx st))
               (0, replicate 3 0)) (\<lambda>(den, numerator).
     bind_r (wr d_cwij d_idx den) (\<lambda>cwij.
     bind_r (for_r [0..<N_NBRS] (\<lambda>k st.
               bind_r (rd NBRS k) (\<lambda>s_idx.
               pass2_neighbour G self_dim d_idx x y z h s_x s_y s_z s_h s_m s_rho numerator den
                 s_idx st))
               (replicate 3 (Some 0), map Some d_m_mat)) (\<lambda>(dwij1, m).
     Inr (m, cwij))))))))"

definition MixedKernelCorrectionPreStep_run ::
  "kernel_fn \<Rightarrow> gradient_fn \<Rightarrow> nat \<Rightarrow> nat \<Rightarrow> real list \<Rightarrow> real list \<Rightarrow> real list \<Rightarrow> real list \<Rightarrow>
   real list \<Rightarrow> real list \<Rightarrow> real list \<Rightarrow> real list \<Rightarrow> nat \<Rightarrow> nat list \<Rightarrow> real list \<Rightarrow>
   real list \<Rightarrow> real list \<Rightarrow> real list \<Rightarrow> (npfloat list \<times> real list) result" where
  "MixedKernelCorrectionPreStep_run K G self_dim d_idx d_x d_y d_z d_h s_x s_y s_z s_h
       N_NBRS NBRS d_m_mat s_m s_rho d_cwij =
     bind_r (MixedKernelCorrectionPreStep_initialize d_idx d_m_mat) (\<lambda>m.
     MixedKernelCorrectionPreStep_loop_all K G self_dim d_idx d_x d_y d_z d_h s_x s_y s_z s_h
       N_NBRS NBRS m s_m s_rho d_cwij)"

subsection \<open>Adding to the matrix of a particle\<close>

text \<open>
  A device of the specification, not of the module: \<open>mat_add d F m\<close> is the array \<open>m\<close>
  with \<open>F i j\<close> added to the entry \<open>9 * d + 3 * i + j\<close> for all \<open>i, j < 3\<close>, that is,
  to the entry in row \<open>i\<close> and column \<open>j\<close> of the matrix of particle \<open>d\<close>; the other
  entries are those of \<open>m\<close>.
\<close>

definition mat_add :: "nat \<Rightarrow> (nat \<Rightarrow> nat \<Rightarrow> real) \<Rightarrow> real list \<Rightarrow> real list" where
  "mat_add d F m =
     map (\<lambda>p. if 9 * d \<le> p \<and> p < 9 * d + 9
              then m ! p + F ((p - 9 * d) div 3) ((p - 9 * d) mod 3) else m ! p)
       [0..<length m]"

text \<open>\<open>mat_zero d m\<close> is \<open>m\<close> with the nine entries of particle \<open>d\<close> set to zero.\<close>

definition mat_zero :: "nat \<Rightarrow> real list \<Rightarrow> real list" where
  "mat_zero d m = map (\<lambda>p. if 9 * d \<le> p \<and> p < 9 * d + 9 then 0 else m ! p) [0..<length m]"

text \<open>The slot \<open>d_idx\<close> exists in the arrays of the destination.\<close>

definition dest_ok :: "real list \<Rightarrow> real list \<Rightarrow> real list \<Rightarrow> real list \<Rightarrow> nat \<Rightarrow> bool" where
  "dest_ok d_x d_y d_z d_h d_idx \<longleftrightarrow>
     d_idx < length d_x \<and> d_idx < length d_y \<and> d_idx < length d_z \<and> d_idx < length d_h"

text \<open>
  The slot \<open>b\<close> exists in the arrays of the sources, and the density there is not zero,
  so that the volume \<open>m_b / rho_b\<close> is defined.
\<close>

definition neighbour_ok ::
  "real list \<Rightarrow> real list \<Rightarrow> real list \<Rightarrow> real list \<Rightarrow> real list \<Rightarrow> real list \<Rightarrow> nat \<Rightarrow> bool" where
  "neighbour_ok s_x s_y s_z s_h s_m s_rho b \<longleftrightarrow>
     b < length s_x \<and> b < length s_y \<and> b < length s_z \<and> b < length s_h \<and>
     b < length s_m \<and> b < length s_rho \<and> s_rho ! b \<noteq> 0"

subsection \<open>The quantities of a pair, in the words of the specification\<close>

text \<open>The displacement \<open>xij = x_a - x_b\<close>, component by component.\<close>

definition pair_xij :: "real \<Rightarrow> real \<Rightarrow> real \<Rightarrow> real list \<Rightarrow> real list \<Rightarrow> real list \<Rightarrow> nat \<Rightarrow> real list" where
  "pair_xij x y z s_x s_y s_z b = [x - s_x ! b, y - s_y ! b, z - s_z ! b]"

text \<open>The Euclidean norm of a vector of three components.\<close>

definition vnorm :: "real list \<Rightarrow> real" where
  "vnorm v = sqrt (v ! 0 * v ! 0 + v ! 1 * v ! 1 + v ! 2 * v ! 2)"

text \<open>
  The gradient \<open>grad W_ab\<close> of the pair: the kernel evaluator at the displacement, the
  distance and the mean smoothing length.
\<close>

definition pair_gradient ::
  "gradient_fn \<Rightarrow> real \<Rightarrow> real \<Rightarrow> real \<Rightarrow> real \<Rightarrow> real list \<Rightarrow> real list \<Rightarrow> real list \<Rightarrow> real list \<Rightarrow>
   nat \<Rightarrow> real list" where
  "pair_gradient G x y z h s_x s_y s_z s_h b =
     (let xij = pair_xij x y z s_x s_y s_z b
      in KERNEL_gradient G xij (vnorm xij) ((h + s_h ! b) * 0.5))"

text \<open>
  What one neighbour adds to the entry in row \<open>i\<close> and column \<open>j\<close>, where \<open>g\<close> is the
  norm of its gradient and \<open>V\<close> its volume: \<open>g * V * xij[i] * xij[j] / r\<close> when
  \<open>r \<ge> 1e-12\<close>, and nothing otherwise.
\<close>

definition moment_term :: "real \<Rightarrow> real \<Rightarrow> real list \<Rightarrow> nat \<Rightarrow> nat \<Rightarrow> real" where
  "moment_term g V xij i j =
     (if vnorm xij \<ge> 1 / 10 ^ 12 then g * V * xij ! i * xij ! j / vnorm xij else 0)"

text \<open>The term of neighbour \<open>b\<close> in the Moment-Matrix Assembler: \<open>g\<close> is \<open>|grad W_ab|\<close>.\<close>

definition gcp_term ::
  "gradient_fn \<Rightarrow> real \<Rightarrow> real \<Rightarrow> real \<Rightarrow> real \<Rightarrow> real list \<Rightarrow> real list \<Rightarrow> real list \<Rightarrow> real list \<Rightarrow>
   real list \<Rightarrow> real list \<Rightarrow> nat \<Rightarrow> nat \<Rightarrow> nat \<Rightarrow> real" where
  "gcp_term G x y z h s_x s_y s_z s_h s_m s_rho b i j =
     moment_term (vnorm (pair_gradient G x y z h s_x s_y s_z s_h b)) (s_m ! b / s_rho ! b)
       (pair_xij x y z s_x s_y s_z b) i j"

subsection \<open>The quantities of the Gradient Corrector, in the words of the specification\<close>

text \<open>
  The leading \<open>n\<close> by \<open>n\<close> submatrix of the matrix of particle \<open>d\<close>, flattened row by row
  with stride \<open>n\<close> into an array of nine entries; the entries from \<open>n * n\<close> on are zero.
\<close>

definition leading_block :: "nat \<Rightarrow> nat \<Rightarrow> real list \<Rightarrow> real list" where
  "leading_block n d m =
     map (\<lambda>p. if p < n * n then m ! (9 * d + 3 * (p div n) + p mod n) else 0) [0..<9]"

text \<open>
  The relative change \<open>\<Delta>\<close> between the raw gradient \<open>DWIJ\<close> and the solution \<open>x\<close>:
  the sum over \<open>i < n\<close> of \<open>|DWIJ[i] - x[i]| / (|DWIJ[i]| + eps)\<close>.
\<close>

definition relative_change_sum :: "nat \<Rightarrow> real list \<Rightarrow> (nat \<Rightarrow> real) \<Rightarrow> real \<Rightarrow> real" where
  "relative_change_sum n DWIJ x eps = (\<Sum>i<n. \<bar>DWIJ ! i - x i\<bar> / (\<bar>DWIJ ! i\<bar> + eps))"

subsection \<open>The quantities of the Mixed Assembler, in the words of the specification\<close>

text \<open>The kernel value \<open>W_ab\<close> of the pair.\<close>

definition pair_kernel ::
  "kernel_fn \<Rightarrow> real \<Rightarrow> real \<Rightarrow> real \<Rightarrow> real \<Rightarrow> real list \<Rightarrow> real list \<Rightarrow> real list \<Rightarrow> real list \<Rightarrow>
   nat \<Rightarrow> real" where
  "pair_kernel K x y z h s_x s_y s_z s_h b =
     (let xij = pair_xij x y z s_x s_y s_z b
      in K xij (vnorm xij) ((h + s_h ! b) * 0.5))"

text \<open>Pass 1: \<open>den\<close> is the sum over the neighbours of \<open>V_b * W_ab\<close>.\<close>

definition mixed_den ::
  "kernel_fn \<Rightarrow> real \<Rightarrow> real \<Rightarrow> real \<Rightarrow> real \<Rightarrow> real list \<Rightarrow> real list \<Rightarrow> real list \<Rightarrow> real list \<Rightarrow>
   real list \<Rightarrow> real list \<Rightarrow> nat list \<Rightarrow> real" where
  "mixed_den K x y z h s_x s_y s_z s_h s_m s_rho nbrs =
     (\<Sum>b\<leftarrow>nbrs. s_m ! b / s_rho ! b * pair_kernel K x y z h s_x s_y s_z s_h b)"

text \<open>Pass 1: \<open>numerator[i]\<close> is the sum over the neighbours of \<open>V_b * grad W_ab[i]\<close>.\<close>

definition mixed_numerator ::
  "gradient_fn \<Rightarrow> real \<Rightarrow> real \<Rightarrow> real \<Rightarrow> real \<Rightarrow> real list \<Rightarrow> real list \<Rightarrow> real list \<Rightarrow> real list \<Rightarrow>
   real list \<Rightarrow> real list \<Rightarrow> nat list \<Rightarrow> nat \<Rightarrow> real" where
  "mixed_numerator G x y z h s_x s_y s_z s_h s_m s_rho nbrs i =
     (\<Sum>b\<leftarrow>nbrs. s_m ! b / s_rho ! b * pair_gradient G x y z h s_x s_y s_z s_h b ! i)"

text \<open>
  Pass 2: the debiased gradient \<open>dwij1[i] = (grad W_ab[i] - numerator[i] / den) / den\<close> for
  \<open>i\<close> below the dimension; the components from the dimension on are zero.
\<close>

definition debiased :: "nat \<Rightarrow> real list \<Rightarrow> (nat \<Rightarrow> real) \<Rightarrow> real \<Rightarrow> real list" where
  "debiased n dwij num den =
     map (\<lambda>i. if i < n then (dwij ! i - num i / den) / den else 0) [0..<3]"

text \<open>The term of neighbour \<open>b\<close> in the Mixed Assembler: \<open>g\<close> is \<open>|dwij1|\<close>.\<close>

definition mixed_term ::
  "gradient_fn \<Rightarrow> nat \<Rightarrow> real \<Rightarrow> real \<Rightarrow> real \<Rightarrow> real \<Rightarrow> real list \<Rightarrow> real list \<Rightarrow> real list \<Rightarrow>
   real list \<Rightarrow> real list \<Rightarrow> real list \<Rightarrow> (nat \<Rightarrow> real) \<Rightarrow> real \<Rightarrow> nat \<Rightarrow> nat \<Rightarrow> nat \<Rightarrow> real" where
  "mixed_term G n x y z h s_x s_y s_z s_h s_m s_rho num den b i j =
     moment_term (vnorm (debiased n (pair_gradient G x y z h s_x s_y s_z s_h b) num den))
       (s_m ! b / s_rho ! b) (pair_xij x y z s_x s_y s_z b) i j"

subsection \<open>The block of the matrix outside the dimension\<close>

text \<open>
  The nine entries of particle \<open>d\<close> exist, and those in a row or a column from \<open>n\<close> on
  are zero.
\<close>

definition outside_zero :: "nat \<Rightarrow> nat \<Rightarrow> real list \<Rightarrow> bool" where
  "outside_zero n d m \<longleftrightarrow>
     9 * d + 9 \<le> length m \<and>
     (\<forall>i<3. \<forall>j<3. n \<le> i \<or> n \<le> j \<longrightarrow> m ! (9 * d + 3 * i + j) = 0)"

text \<open>
  The array \<open>t\<close> has the length of \<open>m\<close> and, for particle \<open>d\<close>, the entries of \<open>m\<close>
  in every row and column from \<open>n\<close> on.
\<close>

definition block_kept :: "nat \<Rightarrow> nat \<Rightarrow> 'a list \<Rightarrow> 'a list \<Rightarrow> bool" where
  "block_kept n d m t \<longleftrightarrow>
     length t = length m \<and>
     (\<forall>i<3. \<forall>j<3. n \<le> i \<or> n \<le> j \<longrightarrow> t ! (9 * d + 3 * i + j) = m ! (9 * d + 3 * i + j))"

section \<open>Properties\<close>

subsection \<open>Exceptions and loops\<close>

lemma bind_r_Inr [simp]: "bind_r (Inr v) f = f v"
  by (simp add: bind_r_def)

lemma bind_r_Inl [simp]: "bind_r (Inl e) f = Inl e"
  by (simp add: bind_r_def)

lemma bind_r_eq_Inr: "bind_r m f = Inr y \<longleftrightarrow> (\<exists>v. m = Inr v \<and> f v = Inr y)"
  by (cases m) simp_all

lemma rd_ok: "i < length xs \<Longrightarrow> rd xs i = Inr (xs ! i)"
  by (simp add: rd_def)

lemma wr_ok: "i < length xs \<Longrightarrow> wr xs i v = Inr (xs[i := v])"
  by (simp add: wr_def)

lemma fdiv_ok: "b \<noteq> 0 \<Longrightarrow> fdiv a b = Inr (a / b)"
  by (simp add: fdiv_def)

lemma bind_r_right [simp]: "bind_r m Inr = m"
  by (cases m) simp_all

lemma for_r_Nil_fun [simp]: "for_r [] body = Inr"
  by (rule ext) simp

lemma for_r_single [simp]: "for_r [a] body = body a"
  by (rule ext) simp

lemma for_r_append: "for_r (xs @ ys) body s = bind_r (for_r xs body s) (for_r ys body)"
  by (induction xs arbitrary: s) (simp_all add: bind_r_def split: sum.splits)

lemma for_r_upt_Suc: "for_r [0..<Suc n] body s = bind_r (for_r [0..<n] body s) (body n)"
  by (simp add: for_r_append bind_r_def split: sum.splits)

lemma for_r_invariant:
  assumes "for_r xs body s = Inr s'" and "P s"
    and "\<And>i t t'. i \<in> set xs \<Longrightarrow> P t \<Longrightarrow> body i t = Inr t' \<Longrightarrow> P t'"
  shows "P s'"
  using assms
proof (induction xs arbitrary: s)
  case Nil
  then show ?case by simp
next
  case (Cons a xs)
  from Cons.prems(1) obtain t where t: "body a s = Inr t" "for_r xs body t = Inr s'"
    by (auto simp: bind_r_eq_Inr)
  have "P t" using Cons.prems(2,3) t(1) by auto
  then show ?case using Cons.IH [OF t(2)] Cons.prems(3) by auto
qed

lemma for_r_sim:
  assumes "\<And>i s. i \<in> set xs \<Longrightarrow> body' i (f s) = map_sum id f (body i s)"
  shows "for_r xs body' (f s) = map_sum id f (for_r xs body s)"
  using assms
proof (induction xs arbitrary: s)
  case Nil
  then show ?case by simp
next
  case (Cons a xs)
  show ?case
  proof (cases "body a s")
    case (Inl e)
    then show ?thesis using Cons.prems [of a s] by simp
  next
    case (Inr t)
    then show ?thesis using Cons.prems [of a s] Cons.IH [of t] Cons.prems by simp
  qed
qed

lemma for_r_total:
  assumes "P s" and "\<And>i t. i \<in> set xs \<Longrightarrow> P t \<Longrightarrow> \<exists>t'. body i t = Inr t' \<and> P t'"
  shows "\<exists>s'. for_r xs body s = Inr s' \<and> P s'"
  using assms
proof (induction xs arbitrary: s)
  case Nil
  then show ?case by simp
next
  case (Cons a xs)
  from Cons.prems(2) [of a s] Cons.prems(1) obtain t where t: "body a s = Inr t" "P t" by auto
  from Cons.IH [OF t(2)] Cons.prems(2) show ?case by (simp add: t(1))
qed

lemma np_add_Some [simp]: "np_add (Some a) (Some b) = Some (a + b)"
  by (simp add: np_add_def)

lemma np_div_ok: "b \<noteq> 0 \<Longrightarrow> np_div a b = Some (a / b)"
  by (simp add: np_div_def)

lemma for_r_neighbours:
  "N \<le> length NBRS \<Longrightarrow>
   for_r [0..<N] (\<lambda>k s. bind_r (rd NBRS k) (\<lambda>b. f b s)) s0 = for_r (take N NBRS) f s0"
proof (induction N arbitrary: s0)
  case 0
  then show ?case by simp
next
  case (Suc N)
  then have "take (Suc N) NBRS = take N NBRS @ [NBRS ! N]"
    by (simp add: take_Suc_conv_app_nth)
  then show ?case using Suc
    by (simp add: for_r_upt_Suc for_r_append rd_ok del: upt_Suc)
qed

lemma KernelCorrection_fold:
  assumes "d_idx < length c"
    and "\<forall>b \<in> set nbrs. b < length s_m \<and> b < length s_rho \<and> s_rho ! b \<noteq> 0"
  shows "for_r nbrs (\<lambda>s_idx c. KernelCorrection_loop d_idx s_idx c s_m s_rho (W s_idx)) c =
         Inr (c[d_idx := c ! d_idx + (\<Sum>b\<leftarrow>nbrs. s_m ! b / s_rho ! b * W b)])"
  using assms
proof (induction nbrs arbitrary: c)
  case Nil
  then show ?case by simp
next
  case (Cons b nbrs)
  have step: "KernelCorrection_loop d_idx b c s_m s_rho (W b) =
              Inr (c[d_idx := c ! d_idx + s_m ! b * W b / s_rho ! b])"
    using Cons.prems by (simp add: KernelCorrection_loop_def rd_ok wr_ok fdiv_ok)
  show ?case using Cons.prems
    by (simp add: step Cons.IH algebra_simps)
qed

subsection \<open>The guarded accumulation adds a matrix\<close>

lemma length_mat_add [simp]: "length (mat_add d F m) = length m"
  by (simp add: mat_add_def)

lemma mat_add_nth_in:
  assumes "i < 3" "j < 3" "9 * d + 3 * i + j < length m"
  shows "mat_add d F m ! (9 * d + 3 * i + j) = m ! (9 * d + 3 * i + j) + F i j"
proof -
  have "(9 * d + 3 * i + j - 9 * d) div 3 = i" "(9 * d + 3 * i + j - 9 * d) mod 3 = j"
    using assms by simp_all
  moreover have "9 * d + 3 * i + j < 9 * d + 9" using assms by simp
  ultimately show ?thesis using assms by (simp add: mat_add_def)
qed

lemma mat_add_nth_out:
  "p < length m \<Longrightarrow> p < 9 * d \<or> 9 * d + 9 \<le> p \<Longrightarrow> mat_add d F m ! p = m ! p"
  by (auto simp: mat_add_def)

lemma block_index:
  assumes "9 * d \<le> p" "p < 9 * d + 9"
  obtains i j where "i < 3" "j < 3" "p = 9 * d + 3 * i + (j::nat)"
proof
  show "(p - 9 * d) div 3 < 3" using assms by simp
  show "(p - 9 * d) mod 3 < 3" by simp
  show "p = 9 * d + 3 * ((p - 9 * d) div 3) + (p - 9 * d) mod 3" using assms by simp
qed

lemma mat_add_mat_add:
  "mat_add d F (mat_add d F' m) = mat_add d (\<lambda>i j. F' i j + F i j) m"
  by (rule nth_equalityI) (simp_all add: mat_add_def)

lemma mat_add_zero [simp]: "mat_add d (\<lambda>i j. 0) m = m"
  by (rule nth_equalityI) (simp_all add: mat_add_def)

lemma mat_add_cong:
  assumes "\<And>i j. i < 3 \<Longrightarrow> j < 3 \<Longrightarrow> F i j = F' i j"
  shows "mat_add d F m = mat_add d F' m"
proof -
  have "F ((p - 9 * d) div 3) ((p - 9 * d) mod 3) = F' ((p - 9 * d) div 3) ((p - 9 * d) mod 3)"
    if "p < 9 * d + 9" for p
    using that by (intro assms) simp_all
  then show ?thesis by (simp add: mat_add_def)
qed

lemma single_add:
  assumes "i < 3" "j < 3" "9 * d + 9 \<le> length m"
  shows "m[9 * d + 3 * i + j := m ! (9 * d + 3 * i + j) + q] =
         mat_add d (\<lambda>i' j'. if i' = i \<and> j' = j then q else 0) m"
proof (rule nth_equalityI)
  show "length (m[9 * d + 3 * i + j := m ! (9 * d + 3 * i + j) + q]) =
        length (mat_add d (\<lambda>i' j'. if i' = i \<and> j' = j then q else 0) m)" by simp
next
  fix p assume "p < length (m[9 * d + 3 * i + j := m ! (9 * d + 3 * i + j) + q])"
  then have p: "p < length m" by simp
  show "m[9 * d + 3 * i + j := m ! (9 * d + 3 * i + j) + q] ! p =
        mat_add d (\<lambda>i' j'. if i' = i \<and> j' = j then q else 0) m ! p"
  proof (cases "9 * d \<le> p \<and> p < 9 * d + 9")
    case True
    then obtain i' j' where ij: "i' < 3" "j' < 3" "p = 9 * d + 3 * i' + j'"
      using block_index by blast
    have "(p = 9 * d + 3 * i + j) = (i' = i \<and> j' = j)"
      using ij(2) assms(2) unfolding ij(3) by arith
    then show ?thesis using ij p assms
      by (auto simp: mat_add_nth_in nth_list_update)
  next
    case False
    then have "p \<noteq> 9 * d + 3 * i + j" using assms by auto
    then show ?thesis using False p by (auto simp: mat_add_nth_out)
  qed
qed

lemma add_entry:
  assumes "i < 3" "j < 3" "9 * d + 9 \<le> length m" "r \<noteq> 0"
  shows "bind_r (rd m (9 * d + 3 * i + j)) (\<lambda>old.
         bind_r (fdiv a r) (\<lambda>q. wr m (9 * d + 3 * i + j) (old + q))) =
         Inr (mat_add d (\<lambda>i' j'. if i' = i \<and> j' = j then a / r else 0) m)"
proof -
  have "9 * d + 3 * i + j < length m" using assms by simp
  then show ?thesis using assms
    by (simp add: rd_ok wr_ok fdiv_ok single_add)
qed

lemma accumulate_row:
  assumes "i < 3" "k \<le> 3" "k \<le> length xij" "9 * d + 9 \<le> length m" "r \<noteq> 0"
  shows "for_r [0..<k] (\<lambda>j m.
            bind_r (rd xij j) (\<lambda>xj.
            bind_r (rd m (9 * d + 3 * i + j)) (\<lambda>old.
            bind_r (fdiv (c * xj) r) (\<lambda>q.
            wr m (9 * d + 3 * i + j) (old + q))))) m =
         Inr (mat_add d (\<lambda>i' j'. if i' = i \<and> j' < k then c * xij ! j' / r else 0) m)"
  using assms(2,3)
proof (induction k)
  case 0
  then show ?case by simp
next
  case (Suc k)
  have k: "k < 3" "k < length xij" using Suc.prems by simp_all
  have len: "9 * d + 9 \<le> length (mat_add d (\<lambda>i' j'. if i' = i \<and> j' < k then c * xij ! j' / r else 0) m)"
    using assms by simp
  show ?case using Suc k
    apply (simp add: for_r_upt_Suc rd_ok add_entry [OF assms(1) k(1) len assms(5)]
        mat_add_mat_add del: upt_Suc)
    apply (rule mat_add_cong)
    apply (auto simp: less_Suc_eq)
    done
qed

lemma accumulate_eq:
  assumes "n \<le> 3" "n \<le> length xij" "9 * d + 9 \<le> length m"
  shows "accumulate n d xij dw V r m =
         Inr (mat_add d (\<lambda>i j. if i < n \<and> j < n \<and> r \<ge> 1 / 10 ^ 12
                                then dw * V * xij ! i * xij ! j / r else 0) m)"
proof (cases "r \<ge> 1 / 10 ^ 12")
  case False
  then show ?thesis by (simp add: accumulate_def)
next
  case True
  then have r: "r \<noteq> 0" by auto
  have "k \<le> n \<Longrightarrow> for_r [0..<k] (\<lambda>i m.
          bind_r (rd xij i) (\<lambda>xi.
          for_r [0..<n] (\<lambda>j m.
            bind_r (rd xij j) (\<lambda>xj.
            bind_r (rd m (9 * d + 3 * i + j)) (\<lambda>old.
            bind_r (fdiv (dw * V * xi * xj) r) (\<lambda>q.
            wr m (9 * d + 3 * i + j) (old + q))))) m)) m =
        Inr (mat_add d (\<lambda>i j. if i < k \<and> j < n then dw * V * xij ! i * xij ! j / r else 0) m)" for k
  proof (induction k)
    case 0
    then show ?case by simp
  next
    case (Suc k)
    have k: "k < 3" "k < length xij" using Suc.prems assms by simp_all
    have len: "9 * d + 9 \<le> length (mat_add d (\<lambda>i j. if i < k \<and> j < n then dw * V * xij ! i * xij ! j / r else 0) m)"
      using assms by simp
    show ?case using Suc k
      apply (simp add: for_r_upt_Suc rd_ok accumulate_row [OF k(1) assms(1,2) len r]
          mat_add_mat_add del: upt_Suc)
      apply (rule mat_add_cong)
      apply (auto simp: less_Suc_eq)
      done
  qed
  from this [of n] show ?thesis using True by (simp add: accumulate_def)
qed

subsection \<open>GradientCorrectionPreStep in closed form\<close>

lemma displacement_ok:
  "b < length s_x \<Longrightarrow> b < length s_y \<Longrightarrow> b < length s_z \<Longrightarrow>
   displacement x y z s_x s_y s_z b = Inr (pair_xij x y z s_x s_y s_z b)"
  by (simp add: displacement_def pair_xij_def rd_ok)

lemma displacement_length: "displacement x y z s_x s_y s_z b = Inr xij \<Longrightarrow> length xij = 3"
  by (auto simp: displacement_def bind_r_eq_Inr)

lemma length_pair_xij [simp]: "length (pair_xij x y z s_x s_y s_z b) = 3"
  by (simp add: pair_xij_def)

lemma length_KERNEL_gradient [simp]: "length (KERNEL_gradient G xij r hij) = 3"
  by (simp add: KERNEL_gradient_def split: prod.splits)

lemma norm3_ok: "length v = 3 \<Longrightarrow> norm3 v = Inr (vnorm v)"
  by (simp add: norm3_def vnorm_def rd_ok)

lemma volume_ok:
  "b < length s_m \<Longrightarrow> b < length s_rho \<Longrightarrow> s_rho ! b \<noteq> 0 \<Longrightarrow>
   volume s_m s_rho b = Inr (s_m ! b / s_rho ! b)"
  by (simp add: volume_def rd_ok fdiv_ok)

lemma accumulate_term:
  assumes "n \<le> 3" "length xij = 3" "9 * d + 9 \<le> length m"
  shows "accumulate n d xij dw V (vnorm xij) m =
         Inr (mat_add d (\<lambda>i j. if i < n \<and> j < n then moment_term dw V xij i j else 0) m)"
proof -
  have "(\<lambda>i j. if i < n \<and> j < n \<and> vnorm xij \<ge> 1 / 10 ^ 12
                then dw * V * xij ! i * xij ! j / vnorm xij else 0) =
        (\<lambda>i j. if i < n \<and> j < n then moment_term dw V xij i j else 0)"
    by (intro ext) (simp add: moment_term_def)
  then show ?thesis using accumulate_eq [of n xij d m dw V "vnorm xij"] assms by simp
qed

lemma GradientCorrectionPreStep_neighbour_eq:
  assumes "n \<le> 3" "9 * d + 9 \<le> length m" "neighbour_ok s_x s_y s_z s_h s_m s_rho b"
  shows "GradientCorrectionPreStep_neighbour G n d s_m s_rho x y z h s_x s_y s_z s_h b m =
         Inr (mat_add d (\<lambda>i j. if i < n \<and> j < n
                then gcp_term G x y z h s_x s_y s_z s_h s_m s_rho b i j else 0) m)"
  using assms
  by (simp add: GradientCorrectionPreStep_neighbour_def neighbour_ok_def displacement_ok
      norm3_ok volume_ok accumulate_term gcp_term_def pair_gradient_def Let_def rd_ok
      cong: if_cong)

lemma GradientCorrectionPreStep_fold:
  assumes "n \<le> 3" "9 * d + 9 \<le> length m"
    and "\<forall>b \<in> set nbrs. neighbour_ok s_x s_y s_z s_h s_m s_rho b"
  shows "for_r nbrs (GradientCorrectionPreStep_neighbour G n d s_m s_rho x y z h s_x s_y s_z s_h) m =
         Inr (mat_add d (\<lambda>i j. if i < n \<and> j < n
                then (\<Sum>b\<leftarrow>nbrs. gcp_term G x y z h s_x s_y s_z s_h s_m s_rho b i j) else 0) m)"
  using assms(2,3)
proof (induction nbrs arbitrary: m)
  case Nil
  then show ?case by (simp cong: if_cong)
next
  case (Cons b nbrs)
  have ok: "neighbour_ok s_x s_y s_z s_h s_m s_rho b" using Cons.prems by simp
  let ?m = "mat_add d (\<lambda>i j. if i < n \<and> j < n
                then gcp_term G x y z h s_x s_y s_z s_h s_m s_rho b i j else 0) m"
  have len: "9 * d + 9 \<le> length ?m" using Cons.prems by simp
  have rest: "\<forall>b \<in> set nbrs. neighbour_ok s_x s_y s_z s_h s_m s_rho b" using Cons.prems by simp
  show ?case
    apply (simp add: GradientCorrectionPreStep_neighbour_eq [OF assms(1) Cons.prems(1) ok]
        Cons.IH [OF len rest] mat_add_mat_add)
    apply (rule mat_add_cong)
    apply simp
    done
qed

lemma GradientCorrectionPreStep_loop_all_eq:
  assumes "self_dim \<le> 3" "9 * d_idx + 9 \<le> length d_m_mat" "dest_ok d_x d_y d_z d_h d_idx"
    and "N_NBRS \<le> length NBRS"
    and "\<forall>b \<in> set (take N_NBRS NBRS). neighbour_ok s_x s_y s_z s_h s_m s_rho b"
  shows "GradientCorrectionPreStep_loop_all G self_dim d_idx d_m_mat s_m s_rho d_x d_y d_z d_h
           s_x s_y s_z s_h NBRS N_NBRS =
         Inr (mat_add d_idx (\<lambda>i j. if i < self_dim \<and> j < self_dim
                then (\<Sum>b\<leftarrow>take N_NBRS NBRS.
                        gcp_term G (d_x ! d_idx) (d_y ! d_idx) (d_z ! d_idx) (d_h ! d_idx)
                          s_x s_y s_z s_h s_m s_rho b i j) else 0) d_m_mat)"
  using assms(3)
  by (simp add: GradientCorrectionPreStep_loop_all_def dest_ok_def rd_ok
      for_r_neighbours [OF assms(4)] GradientCorrectionPreStep_fold [OF assms(1,2,5)])

lemma zero_loop:
  "for_r [0..<k] (\<lambda>i m. wr m (base + i) (0::real)) m =
     (if k = 0 \<or> base + k \<le> length m
      then Inr (map (\<lambda>p. if base \<le> p \<and> p < base + k then 0 else m ! p) [0..<length m])
      else Inl IndexError)"
proof (induction k)
  case 0
  have "map (\<lambda>p. if base \<le> p \<and> p < base + 0 then 0 else m ! p) [0..<length m] = m"
    by (rule nth_equalityI) auto
  then show ?case by simp
next
  case (Suc k)
  show ?case
  proof (cases "k = 0 \<or> base + k \<le> length m")
    case False
    then show ?thesis using Suc by (simp add: for_r_upt_Suc del: upt_Suc)
  next
    case True
    show ?thesis
    proof (cases "base + k < length m")
      case False
      then show ?thesis using Suc True by (simp add: for_r_upt_Suc wr_def del: upt_Suc)
    next
      case lt: True
      have "(map (\<lambda>p. if base \<le> p \<and> p < base + k then 0 else m ! p) [0..<length m])[base + k := 0] =
            map (\<lambda>p. if base \<le> p \<and> p < base + Suc k then 0 else m ! p) [0..<length m]"
        using lt by (intro nth_equalityI) (auto simp: nth_list_update)
      then show ?thesis using Suc True lt by (simp add: for_r_upt_Suc wr_ok del: upt_Suc)
    qed
  qed
qed

lemma GradientCorrectionPreStep_initialize_eq:
  "GradientCorrectionPreStep_initialize d_idx d_m_mat =
     (if 9 * d_idx + 9 \<le> length d_m_mat then Inr (mat_zero d_idx d_m_mat) else Inl IndexError)"
  using zero_loop [of 9 "9 * d_idx" d_m_mat]
  by (simp add: GradientCorrectionPreStep_initialize_def mat_zero_def)

lemma length_mat_zero [simp]: "length (mat_zero d m) = length m"
  by (simp add: mat_zero_def)

lemma mat_zero_nth_in: "e < 9 \<Longrightarrow> 9 * d + e < length m \<Longrightarrow> mat_zero d m ! (9 * d + e) = 0"
  by (simp add: mat_zero_def)

lemma mat_zero_nth_out:
  "p < length m \<Longrightarrow> p < 9 * d \<or> 9 * d + 9 \<le> p \<Longrightarrow> mat_zero d m ! p = m ! p"
  by (auto simp: mat_zero_def)

subsection \<open>The matrix of particle 0 after an assembly\<close>

lemma upt_9: "[0..<9] = [0, 1, 2, 3, 4, 5, 6, 7, 8]"
  by code_simp

lemma mat_add_mat_zero_first:
  assumes "9 \<le> length m"
  shows "mat_add 0 F (mat_zero 0 m) =
         [F 0 0, F 0 1, F 0 2, F 1 0, F 1 1, F 1 2, F 2 0, F 2 1, F 2 2] @ drop 9 m"
proof -
  have "mat_add 0 F (mat_zero 0 m) = map (\<lambda>p. F (p div 3) (p mod 3)) [0..<9] @ drop 9 m"
    using assms by (intro nth_equalityI) (auto simp: mat_add_def mat_zero_def nth_append)
  also have "map (\<lambda>p. F (p div 3) (p mod 3)) [0..<9] =
             [F 0 0, F 0 1, F 0 2, F 1 0, F 1 1, F 1 2, F 2 0, F 2 1, F 2 2]"
    by (simp add: upt_9)
  finally show ?thesis .
qed

lemma two_particles_assembly:
  assumes "\<forall>xij r h. r \<le> 1 \<longrightarrow> G xij r h = (- (xij ! 0), - (xij ! 1), - (xij ! 2))"
    and "9 \<le> length d_m_mat"
  shows "GradientCorrectionPreStep_run G 2 0 d_m_mat [1, 1] [1, 1] [0, 1] [0, 0] [0, 0] [1, 1]
           [0, 1] [0, 0] [0, 0] [1, 1] [0, 1] 2 =
         Inr ([1, 0, 0, 0, 0, 0, 0, 0, 0] @ drop 9 d_m_mat)"
proof -
  have self: "gcp_term G 0 0 0 1 [0, 1] [0, 0] [0, 0] [1, 1] [1, 1] [1, 1] 0 i j = 0" for i j
    by (simp add: gcp_term_def moment_term_def pair_xij_def vnorm_def)
  have "G [- 1, 0, 0] 1 1 = (1, 0, 0)" using assms(1) by simp
  then have other: "gcp_term G 0 0 0 1 [0, 1] [0, 0] [0, 0] [1, 1] [1, 1] [1, 1] (Suc 0) i j =
               [- 1, 0, 0] ! i * [- 1, 0, 0] ! j" for i j
    by (simp add: gcp_term_def moment_term_def pair_gradient_def pair_xij_def vnorm_def
        KERNEL_gradient_def)
  have ok: "dest_ok [0, 1] [0, 0] [0, 0] [1, 1] 0"
    "\<forall>b \<in> set (take 2 [0, 1]). neighbour_ok [0, 1] [0, 0] [0, 0] [1, 1] [1, 1] [1, 1] b"
    by (simp_all add: dest_ok_def neighbour_ok_def)
  have len: "9 * 0 + 9 \<le> length (mat_zero 0 d_m_mat)" using assms(2) by simp
  have init: "GradientCorrectionPreStep_initialize 0 d_m_mat = Inr (mat_zero 0 d_m_mat)"
    using assms(2) by (simp add: GradientCorrectionPreStep_initialize_eq)
  have "(2::nat) \<le> 3" "(2::nat) \<le> length [0, 1::nat]" by simp_all
  note loop = GradientCorrectionPreStep_loop_all_eq [where G = G, OF this(1) len ok(1) this(2) ok(2)]
  have "GradientCorrectionPreStep_run G 2 0 d_m_mat [1, 1] [1, 1] [0, 1] [0, 0] [0, 0] [1, 1]
           [0, 1] [0, 0] [0, 0] [1, 1] [0, 1] 2 =
        GradientCorrectionPreStep_loop_all G 2 0 (mat_zero 0 d_m_mat) [1, 1] [1, 1] [0, 1] [0, 0]
           [0, 0] [1, 1] [0, 1] [0, 0] [0, 0] [1, 1] [0, 1] 2"
    by (simp only: GradientCorrectionPreStep_run_def init bind_r_Inr)
  also note loop
  also have "Inr (mat_add 0 (\<lambda>i j. if i < 2 \<and> j < 2
            then \<Sum>b\<leftarrow>take 2 [0, 1].
                   gcp_term G ([0, 1] ! 0) ([0, 0] ! 0) ([0, 0] ! 0) ([1, 1] ! 0) [0, 1] [0, 0]
                     [0, 0] [1, 1] [1, 1] [1, 1] b i j
            else 0) (mat_zero 0 d_m_mat)) =
        (Inr ([1, 0, 0, 0, 0, 0, 0, 0, 0] @ drop 9 d_m_mat) :: real list result)"
    using assms(2) by (simp add: mat_add_mat_zero_first self other)
  finally show ?thesis .
qed

subsection \<open>Sums over a permuted list\<close>

lemma sum_list_permuted:
  fixes f :: "'a \<Rightarrow> real"
  assumes "mset xs = mset ys"
  shows "(\<Sum>x\<leftarrow>xs. f x) = (\<Sum>x\<leftarrow>ys. f x)"
proof -
  have "sum_mset (image_mset f (mset xs)) = sum_mset (image_mset f (mset ys))"
    using assms by simp
  then show ?thesis by (simp only: mset_map [symmetric] sum_mset_sum_list)
qed

subsection \<open>GradientCorrection in closed form\<close>

lemma store_loop:
  "k \<le> length res \<Longrightarrow>
   for_r [0..<k] (\<lambda>i res. wr res i (f i)) res = Inr (map f [0..<k] @ drop k res)"
proof (induction k)
  case 0
  then show ?case by simp
next
  case (Suc k)
  then have k: "k < length res" by simp
  have "(map f [0..<k] @ drop k res)[k := f k] = map f [0..<Suc k] @ drop (Suc k) res"
    using k by (simp add: list_update_append Cons_nth_drop_Suc [symmetric])
  then show ?case using Suc k by (simp add: for_r_upt_Suc wr_ok del: upt_Suc)
qed

lemma gj_solve_eq:
  "n \<le> 3 \<Longrightarrow> gj_solve S A b n (replicate 3 0) = Inr (map (S A b n) [0..<n] @ replicate (3 - n) 0)"
  by (simp add: gj_solve_def store_loop)

lemma overwrite_eq:
  "k \<le> length res \<Longrightarrow> k \<le> length D \<Longrightarrow>
   overwrite k res D = Inr (take k res @ drop k D)"
  unfolding overwrite_def
proof (induction k)
  case 0
  then show ?case by simp
next
  case (Suc k)
  then have k: "k < length res" "k < length D" by simp_all
  have "(take k res @ drop k D)[k := res ! k] = take (Suc k) res @ drop (Suc k) D"
    using k by (simp add: list_update_append Cons_nth_drop_Suc [symmetric] take_Suc_conv_app_nth)
  then show ?case using Suc k by (simp add: for_r_upt_Suc rd_ok wr_ok del: upt_Suc)
qed

lemma relative_change_eq:
  assumes "n \<le> length DWIJ" "n \<le> length res" "\<forall>i<n. \<bar>DWIJ ! i\<bar> + eps \<noteq> 0"
  shows "relative_change n DWIJ res eps = Inr (Some (relative_change_sum n DWIJ ((!) res) eps))"
  using assms unfolding relative_change_def relative_change_sum_def
proof (induction n)
  case 0
  then show ?case by simp
next
  case (Suc n)
  then show ?case by (simp add: for_r_upt_Suc rd_ok np_div_def np_add_def del: upt_Suc)
qed



lemma copy_block_eq:
  assumes "n \<le> 3" "9 * d + 9 \<le> length m"
  shows "copy_block n d m (replicate 9 0) = Inr (leading_block n d m)"
proof -
  have idx: "9 * d < length m" "9 * d + 1 < length m" "9 * d + 2 < length m"
    "9 * d + 3 < length m" "9 * d + 4 < length m" "9 * d + 5 < length m"
    "9 * d + 6 < length m" "9 * d + 7 < length m" "9 * d + 8 < length m"
    using assms(2) by simp_all
  have r9: "replicate 9 (0::real) = [0, 0, 0, 0, 0, 0, 0, 0, 0]" by (simp add: numeral_eq_Suc)
  have u: "[0..<1] = [0]" "[0..<2] = [0, 1]" "[0..<3] = [0, 1, 2]" by code_simp+
  from assms(1) consider "n = 0" | "n = 1" | "n = 2" | "n = 3" by linarith
  then show ?thesis
  proof cases
    case 1
    then show ?thesis by (simp add: copy_block_def leading_block_def r9 upt_9)
  next
    case 2
    then show ?thesis using idx by (simp add: copy_block_def leading_block_def r9 upt_9 rd_ok wr_ok)
  next
    case 3
    then show ?thesis using idx
      by (simp add: copy_block_def leading_block_def r9 upt_9 u rd_ok wr_ok del: upt_Suc)
  next
    case 4
    then show ?thesis using idx
      by (simp add: copy_block_def leading_block_def r9 upt_9 u rd_ok wr_ok del: upt_Suc)
  qed
qed

lemma leading_block_nth:
  assumes "i < n" "j < n" "n \<le> 3"
  shows "leading_block n d m ! (n * i + j) = m ! (9 * d + 3 * i + j)"
proof -
  have "n * i + j < n * n"
  proof -
    have "n * i + j < n * i + n" using assms(2) by simp
    also have "\<dots> = n * Suc i" by simp
    also have "\<dots> \<le> n * n" using assms(1) by (intro mult_le_mono2) simp
    finally show ?thesis .
  qed
  moreover have "n * n \<le> 9" using assms(3) mult_le_mono [of n 3 n 3] by simp
  moreover have "(n * i + j) div n = i" "(n * i + j) mod n = j" using assms by simp_all
  ultimately show ?thesis by (simp add: leading_block_def)
qed

lemma GradientCorrection_loop_eq:
  assumes "self_dim \<le> 3" "9 * d_idx + 9 \<le> length d_m_mat" "self_dim \<le> length DWIJ"
    and "\<forall>i<self_dim. \<bar>DWIJ ! i\<bar> + 1 / 10 ^ 4 * HIJ \<noteq> 0"
  shows "GradientCorrection_loop S self_dim self_tol d_idx d_m_mat DWIJ HIJ =
         Inr (d_m_mat,
              let x = S (leading_block self_dim d_idx d_m_mat) DWIJ self_dim
              in if relative_change_sum self_dim DWIJ x (1 / 10 ^ 4 * HIJ) \<le> self_tol
                 then map x [0..<self_dim] @ drop self_dim DWIJ else DWIJ)"
proof -
  let ?x = "S (leading_block self_dim d_idx d_m_mat) DWIJ self_dim"
  let ?res = "map ?x [0..<self_dim] @ replicate (3 - self_dim) 0"
  have len: "self_dim \<le> length ?res" by simp
  have sum: "relative_change_sum self_dim DWIJ ((!) ?res) (1 / 10 ^ 4 * HIJ) =
             relative_change_sum self_dim DWIJ ?x (1 / 10 ^ 4 * HIJ)"
    by (simp add: relative_change_sum_def nth_append)
  have tk: "take self_dim ?res = map ?x [0..<self_dim]" by simp
  show ?thesis
    unfolding GradientCorrection_loop_def Let_def copy_block_eq [OF assms(1,2)] bind_r_Inr
      gj_solve_eq [OF assms(1)] relative_change_eq [OF assms(3) len assms(4)] sum
      overwrite_eq [OF len assms(3)] tk
    by (simp add: np_le_def)
qed



lemma list3: "length D = 3 \<Longrightarrow> D = [D ! 0, D ! 1, D ! 2]"
  by (cases D; cases "tl D"; cases "tl (tl D)") auto

lemma example_block: "leading_block 2 0 [2, 0, 0, 0, 2, 0, 0, 0, 0] = [2, 0, 0, 2, 0, 0, 0, 0, 0]"
  by (simp add: leading_block_def upt_9)

lemma example_change:
  "relative_change_sum 2 [1, 1, 0] (\<lambda>i. [1, 1, 0] ! i / [2, 0, 0, 2, 0, 0, 0, 0, 0] ! (2 * i + i)) (1 / 10 ^ 4 * 1)
   = 10000 / 10001"
  by (simp add: relative_change_sum_def numeral_2_eq_2)

lemma example_runs:
  "GradientCorrection_loop (\<lambda>A b n i. b ! i / A ! (n * i + i)) 2 1 0 [2, 0, 0, 0, 2, 0, 0, 0, 0]
     [1, 1, 0] 1 = Inr ([2, 0, 0, 0, 2, 0, 0, 0, 0], [1 / 2, 1 / 2, 0])"
  "GradientCorrection_loop (\<lambda>A b n i. b ! i / A ! (n * i + i)) 2 (1 / 2) 0
     [2, 0, 0, 0, 2, 0, 0, 0, 0] [1, 1, 0] 1 = Inr ([2, 0, 0, 0, 2, 0, 0, 0, 0], [1, 1, 0])"
proof -
  have h: "(2::nat) \<le> 3" "9 * 0 + 9 \<le> length [2, 0, 0, 0, 2, 0, 0, 0, 0::real]"
    "2 \<le> length [1, 1, 0::real]" "\<forall>i<2. \<bar>[1, 1, 0::real] ! i\<bar> + 1 / 10 ^ 4 * 1 \<noteq> 0"
    by (simp_all add: less_Suc_eq numeral_2_eq_2)
  have u: "[0..<2] = [0, 1]" by code_simp
  note eq = GradientCorrection_loop_eq [OF h, of "\<lambda>A b n i. b ! i / A ! (n * i + i)"]
  show "GradientCorrection_loop (\<lambda>A b n i. b ! i / A ! (n * i + i)) 2 1 0 [2, 0, 0, 0, 2, 0, 0, 0, 0]
     [1, 1, 0] 1 = Inr ([2, 0, 0, 0, 2, 0, 0, 0, 0], [1 / 2, 1 / 2, 0])"
    unfolding eq example_block Let_def example_change by (simp add: u)
  show "GradientCorrection_loop (\<lambda>A b n i. b ! i / A ! (n * i + i)) 2 (1 / 2) 0
     [2, 0, 0, 0, 2, 0, 0, 0, 0] [1, 1, 0] 1 = Inr ([2, 0, 0, 0, 2, 0, 0, 0, 0], [1, 1, 0])"
    unfolding eq example_block Let_def example_change by simp
qed

subsection \<open>MixedKernelCorrectionPreStep in closed form\<close>

lemma numerator_loop:
  "k \<le> length nu \<Longrightarrow> k \<le> length g \<Longrightarrow>
   for_r [0..<k] (\<lambda>i nu. bind_r (rd nu i) (\<lambda>old. bind_r (rd g i) (\<lambda>gi. wr nu i (old + V * gi)))) nu =
   Inr (map (\<lambda>i. if i < k then nu ! i + V * g ! i else nu ! i) [0..<length nu])"
proof (induction k)
  case 0
  then show ?case by (simp add: map_nth)
next
  case (Suc k)
  then have k: "k < length nu" "k < length g" by simp_all
  have "(map (\<lambda>i. if i < k then nu ! i + V * g ! i else nu ! i) [0..<length nu])[k := nu ! k + V * g ! k] =
        map (\<lambda>i. if i < Suc k then nu ! i + V * g ! i else nu ! i) [0..<length nu]"
    using k by (intro nth_equalityI) (auto simp: nth_list_update less_Suc_eq)
  then show ?case using Suc k by (simp add: for_r_upt_Suc rd_ok wr_ok del: upt_Suc)
qed

lemma length_pair_gradient [simp]: "length (pair_gradient G x y z h s_x s_y s_z s_h b) = 3"
  by (simp add: pair_gradient_def Let_def)

lemma pass1_neighbour_eq:
  assumes "n \<le> 3" "length nu = 3" "neighbour_ok s_x s_y s_z s_h s_m s_rho b"
  shows "pass1_neighbour K G n x y z h s_x s_y s_z s_h s_m s_rho b (den, nu) =
         Inr (den + s_m ! b / s_rho ! b * pair_kernel K x y z h s_x s_y s_z s_h b,
              map (\<lambda>i. if i < n then nu ! i + s_m ! b / s_rho ! b *
                     pair_gradient G x y z h s_x s_y s_z s_h b ! i else nu ! i) [0..<3])"
proof -
  define V where "V = s_m ! b / s_rho ! b"
  define xij where "xij = pair_xij x y z s_x s_y s_z b"
  define dwij where "dwij = KERNEL_gradient G xij (vnorm xij) ((h + s_h ! b) * 0.5)"
  have disp: "displacement x y z s_x s_y s_z b = Inr xij"
    using assms(3) by (simp add: neighbour_ok_def displacement_ok xij_def)
  have vol: "volume s_m s_rho b = Inr V"
    using assms(3) by (simp add: neighbour_ok_def volume_ok V_def)
  have nrm: "norm3 xij = Inr (vnorm xij)" by (simp add: norm3_ok xij_def)
  have rdh: "rd s_h b = Inr (s_h ! b)" using assms(3) by (simp add: neighbour_ok_def rd_ok)
  have "n \<le> length nu" "n \<le> length dwij" using assms(1,2) by (simp_all add: dwij_def)
  note loop = numerator_loop [OF this, of V]
  have "pass1_neighbour K G n x y z h s_x s_y s_z s_h s_m s_rho b (den, nu) =
        Inr (den + V * K xij (vnorm xij) ((h + s_h ! b) * 0.5),
             map (\<lambda>i. if i < n then nu ! i + V * dwij ! i else nu ! i) [0..<length nu])"
    unfolding pass1_neighbour_def prod.case disp vol nrm rdh bind_r_Inr Let_def
      dwij_def [symmetric] loop ..
  then show ?thesis
    by (simp add: V_def xij_def dwij_def pair_kernel_def pair_gradient_def Let_def assms(2))
qed

lemma pass1_fold:
  assumes "n \<le> 3" "length nu = 3"
    and "\<forall>b \<in> set nbrs. neighbour_ok s_x s_y s_z s_h s_m s_rho b"
  shows "for_r nbrs (pass1_neighbour K G n x y z h s_x s_y s_z s_h s_m s_rho) (den, nu) =
         Inr (den + mixed_den K x y z h s_x s_y s_z s_h s_m s_rho nbrs,
              map (\<lambda>i. if i < n then nu ! i +
                     mixed_numerator G x y z h s_x s_y s_z s_h s_m s_rho nbrs i else nu ! i) [0..<3])"
  using assms(2,3)
proof (induction nbrs arbitrary: den nu)
  case Nil
  have "map (\<lambda>i. if i < n then nu ! i + 0 else nu ! i) [0..<3] = nu"
    using Nil by (intro nth_equalityI) auto
  then show ?case by (simp add: mixed_den_def mixed_numerator_def cong: if_cong)
next
  case (Cons b nbrs)
  let ?nu = "map (\<lambda>i. if i < n then nu ! i + s_m ! b / s_rho ! b *
                     pair_gradient G x y z h s_x s_y s_z s_h b ! i else nu ! i) [0..<3]"
  have ok: "neighbour_ok s_x s_y s_z s_h s_m s_rho b"
    and rest: "\<forall>b \<in> set nbrs. neighbour_ok s_x s_y s_z s_h s_m s_rho b"
    using Cons.prems by simp_all
  have len: "length ?nu = 3" by simp
  have "map (\<lambda>i. if i < n then ?nu ! i +
              mixed_numerator G x y z h s_x s_y s_z s_h s_m s_rho nbrs i else ?nu ! i) [0..<3] =
        map (\<lambda>i. if i < n then nu ! i +
              mixed_numerator G x y z h s_x s_y s_z s_h s_m s_rho (b # nbrs) i else nu ! i) [0..<3]"
    by (intro nth_equalityI) (auto simp: mixed_numerator_def)
  then show ?case
    by (simp add: pass1_neighbour_eq [OF assms(1) Cons.prems(1) ok] Cons.IH [OF len rest]
        mixed_den_def)
qed

lemma MixedKernelCorrectionPreStep_initialize_eq:
  "MixedKernelCorrectionPreStep_initialize d_idx d_m_mat =
     (if 9 * d_idx + 9 \<le> length d_m_mat then Inr (mat_zero d_idx d_m_mat) else Inl IndexError)"
  using zero_loop [of 9 "9 * d_idx" d_m_mat]
  by (simp add: MixedKernelCorrectionPreStep_initialize_def mat_zero_def)

lemma vnorm_axis: "vnorm [a, 0, 0] = \<bar>a\<bar>"
  by (simp add: vnorm_def)

lemma debias_eq:
  assumes "k \<le> length d1" "k \<le> length dwij" "k \<le> length nu" "den \<noteq> 0"
  shows "debias k dwij nu den d1 =
         Inr (map (\<lambda>i. if i < k then Some ((dwij ! i - nu ! i / den) / den) else d1 ! i)
                [0..<length d1])"
  using assms(1-3) unfolding debias_def
proof (induction k)
  case 0
  then show ?case by (simp add: map_nth)
next
  case (Suc k)
  then have k: "k < length d1" "k < length dwij" "k < length nu" by simp_all
  have "(map (\<lambda>i. if i < k then Some ((dwij ! i - nu ! i / den) / den) else d1 ! i) [0..<length d1])
          [k := Some ((dwij ! k - nu ! k / den) / den)] =
        map (\<lambda>i. if i < Suc k then Some ((dwij ! i - nu ! i / den) / den) else d1 ! i) [0..<length d1]"
    using k by (intro nth_equalityI) (auto simp: nth_list_update less_Suc_eq)
  then show ?case using Suc k assms(4)
    by (simp add: for_r_upt_Suc rd_ok wr_ok np_div_ok Let_def del: upt_Suc)
qed

lemma debias_returns:
  assumes "k \<le> length d1" "k \<le> length dwij" "k \<le> length nu"
  shows "\<exists>d1'. debias k dwij nu den d1 = Inr d1' \<and> length d1' = length d1 \<and>
           (\<forall>i<length d1. k \<le> i \<longrightarrow> d1' ! i = d1 ! i)"
  unfolding debias_def
proof (rule for_r_total [where P = "\<lambda>t. length t = length d1 \<and> (\<forall>i<length d1. k \<le> i \<longrightarrow> t ! i = d1 ! i)"])
  show "length d1 = length d1 \<and> (\<forall>i<length d1. k \<le> i \<longrightarrow> d1 ! i = d1 ! i)" by simp
next
  fix i t
  assume i: "i \<in> set [0..<k]" and t: "length t = length d1 \<and> (\<forall>i<length d1. k \<le> i \<longrightarrow> t ! i = d1 ! i)"
  then have "i < length t" "i < length dwij" "i < length nu" "i < k" using assms by simp_all
  then show "\<exists>t'. bind_r (rd dwij i) (\<lambda>g. bind_r (rd nu i) (\<lambda>nu.
           let gamma = np_div nu den;
               v = (case gamma of None \<Rightarrow> None | Some c \<Rightarrow> np_div (g - c) den)
           in wr t i v)) = Inr t' \<and>
         length t' = length d1 \<and> (\<forall>i<length d1. k \<le> i \<longrightarrow> t' ! i = d1 ! i)"
    using t by (simp add: rd_ok wr_ok Let_def)
qed

lemma norm3_np_Some: "norm3_np [Some a, Some b, Some c] = Inr (Some (vnorm [a, b, c]))"
  by (simp add: norm3_np_def rd_def vnorm_def)

lemma norm3_np_finite: "length v = 3 \<Longrightarrow> norm3_np (map Some v) = Inr (Some (vnorm v))"
  by (simp add: norm3_np_def rd_def vnorm_def)

lemma norm3_np_returns: "length v = 3 \<Longrightarrow> \<exists>dw. norm3_np v = Inr dw"
  by (simp add: norm3_np_def rd_ok)

lemma accumulate_np_finite:
  "accumulate_np n d xij (Some dw) V r (map Some m) =
   map_sum id (map Some) (accumulate n d xij dw V r m)"
proof (cases "r \<ge> 1 / 10 ^ 12")
  case False
  then show ?thesis by (simp add: accumulate_np_def accumulate_def)
next
  case True
  then have r: "r \<noteq> 0" by auto
  have inner: "for_r [0..<n] (\<lambda>j m.
            bind_r (rd xij j) (\<lambda>xj.
            bind_r (rd m (9 * d + 3 * i + j)) (\<lambda>old.
            let q = (case Some dw of None \<Rightarrow> None | Some g \<Rightarrow> np_div (g * V * xi * xj) r)
            in wr m (9 * d + 3 * i + j) (np_add old q)))) (map Some t) =
         map_sum id (map Some) (for_r [0..<n] (\<lambda>j m.
            bind_r (rd xij j) (\<lambda>xj.
            bind_r (rd m (9 * d + 3 * i + j)) (\<lambda>old.
            bind_r (fdiv (dw * V * xi * xj) r) (\<lambda>q.
            wr m (9 * d + 3 * i + j) (old + q))))) t)" for i xi t
    by (rule for_r_sim)
      (simp add: rd_def wr_def fdiv_def np_div_def r Let_def map_update)
  have "for_r [0..<n] (\<lambda>i m.
          bind_r (rd xij i) (\<lambda>xi.
          for_r [0..<n] (\<lambda>j m.
            bind_r (rd xij j) (\<lambda>xj.
            bind_r (rd m (9 * d + 3 * i + j)) (\<lambda>old.
            let q = (case Some dw of None \<Rightarrow> None | Some g \<Rightarrow> np_div (g * V * xi * xj) r)
            in wr m (9 * d + 3 * i + j) (np_add old q)))) m)) (map Some m) =
        map_sum id (map Some) (for_r [0..<n] (\<lambda>i m.
          bind_r (rd xij i) (\<lambda>xi.
          for_r [0..<n] (\<lambda>j m.
            bind_r (rd xij j) (\<lambda>xj.
            bind_r (rd m (9 * d + 3 * i + j)) (\<lambda>old.
            bind_r (fdiv (dw * V * xi * xj) r) (\<lambda>q.
            wr m (9 * d + 3 * i + j) (old + q))))) m)) m)"
  proof (rule for_r_sim)
    fix i s
    show "bind_r (rd xij i) (\<lambda>xi.
          for_r [0..<n] (\<lambda>j m.
            bind_r (rd xij j) (\<lambda>xj.
            bind_r (rd m (9 * d + 3 * i + j)) (\<lambda>old.
            let q = (case Some dw of None \<Rightarrow> None | Some g \<Rightarrow> np_div (g * V * xi * xj) r)
            in wr m (9 * d + 3 * i + j) (np_add old q)))) (map Some s)) =
        map_sum id (map Some) (bind_r (rd xij i) (\<lambda>xi.
          for_r [0..<n] (\<lambda>j m.
            bind_r (rd xij j) (\<lambda>xj.
            bind_r (rd m (9 * d + 3 * i + j)) (\<lambda>old.
            bind_r (fdiv (dw * V * xi * xj) r) (\<lambda>q.
            wr m (9 * d + 3 * i + j) (old + q))))) s))"
    proof (cases "i < length xij")
      case True
      then have "rd xij i = Inr (xij ! i)" by (simp add: rd_ok)
      then show ?thesis unfolding bind_r_Inr by (simp only: bind_r_Inr inner)
    next
      case False
      then have "rd xij i = Inl IndexError" by (simp add: rd_def)
      then show ?thesis by simp
    qed
  qed
  then show ?thesis using True by (simp add: accumulate_np_def accumulate_def)
qed

lemma length_debiased [simp]: "length (debiased n dwij num den) = 3"
  by (simp add: debiased_def)

lemma pass2_neighbour_eq:
  assumes "n \<le> 3" "9 * d + 9 \<le> length m" "neighbour_ok s_x s_y s_z s_h s_m s_rho b"
    and "length d1 = 3" "\<forall>i<3. n \<le> i \<longrightarrow> d1 ! i = Some 0"
    and "length nu = 3" "\<forall>i<n. nu ! i = num i" "den \<noteq> 0"
  shows "pass2_neighbour G n d x y z h s_x s_y s_z s_h s_m s_rho nu den b (d1, map Some m) =
         Inr (map Some (debiased n (pair_gradient G x y z h s_x s_y s_z s_h b) num den),
              map Some (mat_add d (\<lambda>i j. if i < n \<and> j < n
                then mixed_term G n x y z h s_x s_y s_z s_h s_m s_rho num den b i j else 0) m))"
proof -
  define V where "V = s_m ! b / s_rho ! b"
  define xij where "xij = pair_xij x y z s_x s_y s_z b"
  define dwij where "dwij = KERNEL_gradient G xij (vnorm xij) ((h + s_h ! b) * 0.5)"
  define dwij1 where "dwij1 = debiased n dwij num den"
  have disp: "displacement x y z s_x s_y s_z b = Inr xij"
    using assms(3) by (simp add: neighbour_ok_def displacement_ok xij_def)
  have vol: "volume s_m s_rho b = Inr V"
    using assms(3) by (simp add: neighbour_ok_def volume_ok V_def)
  have nrm: "norm3 xij = Inr (vnorm xij)" by (simp add: norm3_ok xij_def)
  have rdh: "rd s_h b = Inr (s_h ! b)" using assms(3) by (simp add: neighbour_ok_def rd_ok)
  have "n \<le> length d1" "n \<le> length dwij" "n \<le> length nu"
    using assms(1,4,6) by (simp_all add: dwij_def)
  from debias_eq [OF this assms(8)]
  have "debias n dwij nu den d1 =
        Inr (map (\<lambda>i. if i < n then Some ((dwij ! i - nu ! i / den) / den) else d1 ! i) [0..<3])"
    by (simp add: assms(4))
  moreover have "map (\<lambda>i. if i < n then Some ((dwij ! i - nu ! i / den) / den) else d1 ! i) [0..<3] =
      map Some dwij1"
    unfolding dwij1_def debiased_def using assms(5,7) by (intro nth_equalityI) auto
  ultimately have deb: "debias n dwij nu den d1 = Inr (map Some dwij1)" by simp
  have nrm1: "norm3_np (map Some dwij1) = Inr (Some (vnorm dwij1))"
    by (simp add: norm3_np_finite dwij1_def)
  have "length xij = 3" by (simp add: xij_def)
  note acc0 = accumulate_term [OF assms(1) this assms(2), of "vnorm dwij1" V]
  have acc: "accumulate_np n d xij (Some (vnorm dwij1)) V (vnorm xij) (map Some m) =
             Inr (map Some (mat_add d (\<lambda>i j. if i < n \<and> j < n
               then moment_term (vnorm dwij1) V xij i j else 0) m))"
    unfolding accumulate_np_finite acc0 by simp
  have "pass2_neighbour G n d x y z h s_x s_y s_z s_h s_m s_rho nu den b (d1, map Some m) =
        Inr (map Some dwij1, map Some (mat_add d (\<lambda>i j. if i < n \<and> j < n
               then moment_term (vnorm dwij1) V xij i j else 0) m))"
    unfolding pass2_neighbour_def prod.case disp vol nrm rdh bind_r_Inr Let_def
      dwij_def [symmetric] deb nrm1 acc ..
  then show ?thesis
    by (simp add: V_def xij_def dwij_def dwij1_def mixed_term_def pair_gradient_def Let_def
        cong: if_cong)
qed

lemma debiased_tail: "\<forall>i<3. n \<le> i \<longrightarrow> map Some (debiased n dwij num den) ! i = Some 0"
  by (simp add: debiased_def)

lemma pass2_fold:
  assumes "n \<le> 3" "length nu = 3" "\<forall>i<n. nu ! i = num i" "den \<noteq> 0"
    and "\<forall>b \<in> set nbrs. neighbour_ok s_x s_y s_z s_h s_m s_rho b"
    and "9 * d + 9 \<le> length m" "length d1 = 3" "\<forall>i<3. n \<le> i \<longrightarrow> d1 ! i = Some 0"
  shows "\<exists>d1'. for_r nbrs (pass2_neighbour G n d x y z h s_x s_y s_z s_h s_m s_rho nu den)
             (d1, map Some m) =
           Inr (d1', map Some (mat_add d (\<lambda>i j. if i < n \<and> j < n
                  then (\<Sum>b\<leftarrow>nbrs. mixed_term G n x y z h s_x s_y s_z s_h s_m s_rho num den b i j)
                  else 0) m))"
  using assms(5-8)
proof (induction nbrs arbitrary: d1 m)
  case Nil
  then show ?case by (simp cong: if_cong)
next
  case (Cons b nbrs)
  have ok: "neighbour_ok s_x s_y s_z s_h s_m s_rho b"
    and rest: "\<forall>b \<in> set nbrs. neighbour_ok s_x s_y s_z s_h s_m s_rho b"
    using Cons.prems(1) by simp_all
  let ?d1 = "map Some (debiased n (pair_gradient G x y z h s_x s_y s_z s_h b) num den)"
  let ?m = "mat_add d (\<lambda>i j. if i < n \<and> j < n
                then mixed_term G n x y z h s_x s_y s_z s_h s_m s_rho num den b i j else 0) m"
  have step: "pass2_neighbour G n d x y z h s_x s_y s_z s_h s_m s_rho nu den b (d1, map Some m) =
              Inr (?d1, map Some ?m)"
    by (rule pass2_neighbour_eq [OF assms(1) Cons.prems(2) ok Cons.prems(3,4) assms(2,3,4)])
  have len: "9 * d + 9 \<le> length ?m" using Cons.prems(2) by simp
  have len1: "length ?d1 = 3" by simp
  from Cons.IH [OF rest len len1 debiased_tail]
  obtain d1' where "for_r nbrs (pass2_neighbour G n d x y z h s_x s_y s_z s_h s_m s_rho nu den)
        (?d1, map Some ?m) =
      Inr (d1', map Some (mat_add d (\<lambda>i j. if i < n \<and> j < n
             then (\<Sum>b\<leftarrow>nbrs. mixed_term G n x y z h s_x s_y s_z s_h s_m s_rho num den b i j)
             else 0) ?m))" by blast
  moreover have "mat_add d (\<lambda>i j. if i < n \<and> j < n
             then (\<Sum>b\<leftarrow>nbrs. mixed_term G n x y z h s_x s_y s_z s_h s_m s_rho num den b i j)
             else 0) ?m =
        mat_add d (\<lambda>i j. if i < n \<and> j < n
             then (\<Sum>b\<leftarrow>b # nbrs. mixed_term G n x y z h s_x s_y s_z s_h s_m s_rho num den b i j)
             else 0) m"
    unfolding mat_add_mat_add by (rule mat_add_cong) simp
  ultimately show ?case by (simp add: step)
qed

lemma MixedKernelCorrectionPreStep_loop_all_eq:
  assumes "self_dim \<le> 3" "9 * d_idx + 9 \<le> length d_m_mat" "dest_ok d_x d_y d_z d_h d_idx"
    and "d_idx < length d_cwij" "N_NBRS \<le> length NBRS"
    and "\<forall>b \<in> set (take N_NBRS NBRS). neighbour_ok s_x s_y s_z s_h s_m s_rho b"
    and "x = d_x ! d_idx" "y = d_y ! d_idx" "z = d_z ! d_idx" "h = d_h ! d_idx"
    and "den = mixed_den K x y z h s_x s_y s_z s_h s_m s_rho (take N_NBRS NBRS)"
    and "num = mixed_numerator G x y z h s_x s_y s_z s_h s_m s_rho (take N_NBRS NBRS)"
    and "den \<noteq> 0"
  shows "MixedKernelCorrectionPreStep_loop_all K G self_dim d_idx d_x d_y d_z d_h s_x s_y s_z s_h
           N_NBRS NBRS d_m_mat s_m s_rho d_cwij =
         Inr (map Some (mat_add d_idx (\<lambda>i j. if i < self_dim \<and> j < self_dim
                then (\<Sum>b\<leftarrow>take N_NBRS NBRS.
                        mixed_term G self_dim x y z h s_x s_y s_z s_h s_m s_rho num den b i j)
                else 0) d_m_mat),
              d_cwij[d_idx := den])"
proof -
  let ?nbrs = "take N_NBRS NBRS"
  define nu where "nu = map (\<lambda>i. if i < self_dim then replicate 3 (0::real) ! i + num i
                              else replicate 3 0 ! i) [0..<3]"
  have rds: "rd d_x d_idx = Inr x" "rd d_y d_idx = Inr y" "rd d_z d_idx = Inr z"
    "rd d_h d_idx = Inr h"
    using assms(3) by (simp_all add: dest_ok_def rd_ok assms(7-10))
  have p1: "for_r [0..<N_NBRS] (\<lambda>k st. bind_r (rd NBRS k) (\<lambda>s_idx.
              pass1_neighbour K G self_dim x y z h s_x s_y s_z s_h s_m s_rho s_idx st))
              (0, replicate 3 0) = Inr (den, nu)"
    unfolding for_r_neighbours [OF assms(5)]
    using pass1_fold [OF assms(1) _ assms(6), where nu = "replicate 3 0" and K = K and G = G
        and x = x and y = y and z = z and h = h and den = 0]
    by (simp add: assms(11,12) nu_def)
  have nu: "length nu = 3" "\<forall>i<self_dim. nu ! i = num i"
    using assms(1) by (simp_all add: nu_def)
  have wr: "wr d_cwij d_idx den = Inr (d_cwij[d_idx := den])" using assms(4) by (simp add: wr_ok)
  have "length (replicate 3 (Some (0::real))) = 3"
    "\<forall>i<3. self_dim \<le> i \<longrightarrow> replicate 3 (Some (0::real)) ! i = Some 0"
    by simp_all
  from pass2_fold [OF assms(1) nu assms(13,6,2) this, where G = G and x = x and y = y and z = z
      and h = h]
  obtain d1' where p2: "for_r ?nbrs
      (pass2_neighbour G self_dim d_idx x y z h s_x s_y s_z s_h s_m s_rho nu den)
      (replicate 3 (Some 0), map Some d_m_mat) =
    Inr (d1', map Some (mat_add d_idx (\<lambda>i j. if i < self_dim \<and> j < self_dim
           then (\<Sum>b\<leftarrow>?nbrs. mixed_term G self_dim x y z h s_x s_y s_z s_h s_m s_rho num den b i j)
           else 0) d_m_mat))" by blast
  have p2': "for_r [0..<N_NBRS] (\<lambda>k st. bind_r (rd NBRS k) (\<lambda>s_idx.
               pass2_neighbour G self_dim d_idx x y z h s_x s_y s_z s_h s_m s_rho nu den
                 s_idx st)) (replicate 3 (Some 0), map Some d_m_mat) =
    Inr (d1', map Some (mat_add d_idx (\<lambda>i j. if i < self_dim \<and> j < self_dim
           then (\<Sum>b\<leftarrow>?nbrs. mixed_term G self_dim x y z h s_x s_y s_z s_h s_m s_rho num den b i j)
           else 0) d_m_mat))"
    unfolding for_r_neighbours [OF assms(5)] by (rule p2)
  show ?thesis
    unfolding MixedKernelCorrectionPreStep_loop_all_def rds bind_r_Inr p1 prod.case wr p2' ..
qed

lemma MixedKernelCorrectionPreStep_no_neighbours:
  assumes "dest_ok d_x d_y d_z d_h d_idx" "d_idx < length d_cwij"
  shows "MixedKernelCorrectionPreStep_loop_all K G self_dim d_idx d_x d_y d_z d_h s_x s_y s_z s_h
           0 NBRS d_m_mat s_m s_rho d_cwij = Inr (map Some d_m_mat, d_cwij[d_idx := 0])"
  using assms
  by (simp add: MixedKernelCorrectionPreStep_loop_all_def dest_ok_def rd_ok wr_ok)

lemma two_particles_mixed:
  "MixedKernelCorrectionPreStep_run (\<lambda>xij r h. 1)
     (\<lambda>xij r h. (- (xij ! 0), - (xij ! 1), - (xij ! 2))) 2 0 [0] [0] [0] [1]
     [0, 1] [0, 0] [0, 0] [1, 1] 2 [0, 1] [7, 7, 7, 7, 7, 7, 7, 7, 7] [1, 1] [1, 1] [5] =
   Inr (map Some [1 / 4, 0, 0, 0, 0, 0, 0, 0, 0], [2])"
proof -
  define K :: kernel_fn where "K = (\<lambda>xij r h. 1)"
  define G :: gradient_fn where "G = (\<lambda>xij r h. (- (xij ! 0), - (xij ! 1), - (xij ! 2)))"
  have pg: "pair_gradient G 0 0 0 1 [0, 1] [0, 0] [0, 0] [1, 1] 0 = [0, 0, 0]"
    "pair_gradient G 0 0 0 1 [0, 1] [0, 0] [0, 0] [1, 1] (Suc 0) = [1, 0, 0]"
    by (simp_all add: pair_gradient_def pair_xij_def KERNEL_gradient_def G_def)
  have px: "pair_xij 0 0 0 [0, 1] [0, 0] [0, 0] 0 = [0, 0, 0]"
    "pair_xij 0 0 0 [0, 1] [0, 0] [0, 0] (Suc 0) = [- 1, 0, 0]"
    by (simp_all add: pair_xij_def)
  define den :: real
    where "den = mixed_den K 0 0 0 1 [0, 1] [0, 0] [0, 0] [1, 1] [1, 1] [1, 1] (take 2 [0, 1])"
  define num :: "nat \<Rightarrow> real"
    where "num = mixed_numerator G 0 0 0 1 [0, 1] [0, 0] [0, 0] [1, 1] [1, 1] [1, 1] (take 2 [0, 1])"
  have den2: "den = 2" by (simp add: den_def mixed_den_def pair_kernel_def K_def)
  have numv: "num 0 = 1" "num (Suc 0) = 0" by (simp_all add: num_def mixed_numerator_def pg)
  have deb: "debiased 2 [0, 0, 0] num den = [- 1 / 4, 0, 0]"
    "debiased 2 [1, 0, 0] num den = [1 / 4, 0, 0]"
    by (simp_all add: debiased_def den2 numv numeral_3_eq_3)
  have t0: "mixed_term G 2 0 0 0 1 [0, 1] [0, 0] [0, 0] [1, 1] [1, 1] [1, 1] num den 0 i j = 0" for i j
    by (simp add: mixed_term_def moment_term_def px vnorm_axis)
  have t1: "mixed_term G 2 0 0 0 1 [0, 1] [0, 0] [0, 0] [1, 1] [1, 1] [1, 1] num den (Suc 0) i j =
            1 / 4 * [- 1, 0, 0] ! i * [- 1, 0, 0] ! j" for i j
    by (simp add: mixed_term_def moment_term_def px pg deb vnorm_axis)
  have z: "mat_zero 0 [7, 7, 7, 7, 7, 7, 7, 7, 7] = [0, 0, 0, 0, 0, 0, 0, 0, 0]"
    by (simp add: mat_zero_def upt_9)
  have val: "mat_add 0 (\<lambda>i j. if i < 2 \<and> j < 2
               then (\<Sum>b\<leftarrow>take 2 [0, 1].
                       mixed_term G 2 0 0 0 1 [0, 1] [0, 0] [0, 0] [1, 1] [1, 1] [1, 1] num den b i j)
               else 0) [0, 0, 0, 0, 0, 0, 0, 0, 0] = [1 / 4, 0, 0, 0, 0, 0, 0, 0, 0]"
    by (simp add: t0 t1 mat_add_def upt_9 cong: if_cong)
  have h: "(2::nat) \<le> 3" "9 * 0 + 9 \<le> length [0, 0, 0, 0, 0, 0, 0, 0, 0::real]"
    "dest_ok [0] [0] [0] [1] 0" "0 < length [5::real]" "(2::nat) \<le> length [0, 1::nat]"
    "\<forall>b \<in> set (take 2 [0, 1]). neighbour_ok [0, 1] [0, 0] [0, 0] [1, 1] [1, 1] [1, 1] b"
    "(0::real) = [0] ! 0" "(0::real) = [0] ! 0" "(0::real) = [0] ! 0" "(1::real) = [1] ! 0"
    by (simp_all add: dest_ok_def neighbour_ok_def)
  have "den \<noteq> 0" by (simp add: den2)
  note la = MixedKernelCorrectionPreStep_loop_all_eq [OF h den_def num_def this, unfolded val]
  have init: "MixedKernelCorrectionPreStep_initialize 0 [7, 7, 7, 7, 7, 7, 7, 7, 7] =
              Inr [0, 0, 0, 0, 0, 0, 0, 0, 0]"
    by (simp add: MixedKernelCorrectionPreStep_initialize_eq z)
  have "MixedKernelCorrectionPreStep_run K G 2 0 [0] [0] [0] [1]
     [0, 1] [0, 0] [0, 0] [1, 1] 2 [0, 1] [7, 7, 7, 7, 7, 7, 7, 7, 7] [1, 1] [1, 1] [5] =
     Inr (map Some [1 / 4, 0, 0, 0, 0, 0, 0, 0, 0], [5][0 := den])"
    unfolding MixedKernelCorrectionPreStep_run_def init bind_r_Inr la ..
  then show ?thesis unfolding den2 K_def G_def by simp
qed

subsection \<open>MixedKernelCorrectionPreStep returns, whatever \<open>den\<close> is\<close>

lemma index_outside:
  fixes i j i' j' n d :: nat
  assumes "i < n" "j < n" "n \<le> 3" "i' < 3" "j' < 3" "n \<le> i' \<or> n \<le> j'"
  shows "9 * d + 3 * i' + j' \<noteq> 9 * d + 3 * i + j"
proof
  assume "9 * d + 3 * i' + j' = 9 * d + 3 * i + j"
  then have e: "3 * i' + j' = 3 * i + j" by simp
  have "j < 3" using assms(2,3) by simp
  with e assms(5) have "i' = i" "j' = j" by arith+
  then show False using assms(1,2,6) by auto
qed

lemma block_kept_refl: "block_kept n d m m"
  by (simp add: block_kept_def)

lemma block_kept_update:
  assumes "block_kept n d m t" "i < n" "j < n" "n \<le> 3"
  shows "block_kept n d m (t[9 * d + 3 * i + j := v])"
  unfolding block_kept_def
proof (intro conjI allI impI)
  show "length (t[9 * d + 3 * i + j := v]) = length m"
    using assms(1) by (simp add: block_kept_def)
next
  fix i' j' assume h: "i' < 3" "j' < 3" "n \<le> i' \<or> n \<le> j'"
  have ne: "9 * d + 3 * i' + j' \<noteq> 9 * d + 3 * i + j"
    by (rule index_outside [OF assms(2,3,4) h])
  have "t[9 * d + 3 * i + j := v] ! (9 * d + 3 * i' + j') = t ! (9 * d + 3 * i' + j')"
    using ne by (simp only: nth_list_update_neq not_sym)
  also have "\<dots> = m ! (9 * d + 3 * i' + j')"
    using assms(1) h unfolding block_kept_def by blast
  finally show "t[9 * d + 3 * i + j := v] ! (9 * d + 3 * i' + j') = m ! (9 * d + 3 * i' + j')" .
qed

lemma accumulate_np_returns:
  assumes "n \<le> 3" "n \<le> length xij" "9 * d + 9 \<le> length m"
  shows "\<exists>m'. accumulate_np n d xij dw V r m = Inr m' \<and> block_kept n d m m'"
proof (cases "r \<ge> 1 / 10 ^ 12")
  case False
  then show ?thesis by (simp add: accumulate_np_def block_kept_refl)
next
  case True
  have inner: "\<exists>t'. for_r [0..<n] (\<lambda>j m.
            bind_r (rd xij j) (\<lambda>xj.
            bind_r (rd m (9 * d + 3 * i + j)) (\<lambda>old.
            let q = (case dw of None \<Rightarrow> None | Some g \<Rightarrow> np_div (g * V * xi * xj) r)
            in wr m (9 * d + 3 * i + j) (np_add old q)))) t = Inr t' \<and> block_kept n d m t'"
    if i: "i < n" and t: "block_kept n d m t" for i xi t
  proof (rule for_r_total [where P = "block_kept n d m", OF t])
    fix j u
    assume "j \<in> set [0..<n]" and u: "block_kept n d m u"
    then have j: "j < n" by simp
    have jx: "j < length xij" using j assms(2) by simp
    have "3 * i + j < 9" using i j assms(1) by simp
    then have idx: "9 * d + 3 * i + j < length u"
      using assms(3) u by (simp add: block_kept_def)
    have "bind_r (rd xij j) (\<lambda>xj.
            bind_r (rd u (9 * d + 3 * i + j)) (\<lambda>old.
            let q = (case dw of None \<Rightarrow> None | Some g \<Rightarrow> np_div (g * V * xi * xj) r)
            in wr u (9 * d + 3 * i + j) (np_add old q))) =
          Inr (u[9 * d + 3 * i + j := np_add (u ! (9 * d + 3 * i + j))
                 (case dw of None \<Rightarrow> None | Some g \<Rightarrow> np_div (g * V * xi * xij ! j) r)])"
      by (simp add: rd_ok [OF jx] rd_ok [OF idx] wr_ok [OF idx] Let_def)
    then show "\<exists>t'. bind_r (rd xij j) (\<lambda>xj.
            bind_r (rd u (9 * d + 3 * i + j)) (\<lambda>old.
            let q = (case dw of None \<Rightarrow> None | Some g \<Rightarrow> np_div (g * V * xi * xj) r)
            in wr u (9 * d + 3 * i + j) (np_add old q))) = Inr t' \<and> block_kept n d m t'"
      using block_kept_update [OF u i j assms(1)] by blast
  qed
  have "\<exists>m'. for_r [0..<n] (\<lambda>i m.
          bind_r (rd xij i) (\<lambda>xi.
          for_r [0..<n] (\<lambda>j m.
            bind_r (rd xij j) (\<lambda>xj.
            bind_r (rd m (9 * d + 3 * i + j)) (\<lambda>old.
            let q = (case dw of None \<Rightarrow> None | Some g \<Rightarrow> np_div (g * V * xi * xj) r)
            in wr m (9 * d + 3 * i + j) (np_add old q)))) m)) m = Inr m' \<and> block_kept n d m m'"
  proof (rule for_r_total [where P = "block_kept n d m", OF block_kept_refl])
    fix i t
    assume "i \<in> set [0..<n]" and t: "block_kept n d m t"
    then have i: "i < n" by simp
    have ix: "rd xij i = Inr (xij ! i)" using i assms(2) by (simp add: rd_ok)
    show "\<exists>t'. bind_r (rd xij i) (\<lambda>xi.
          for_r [0..<n] (\<lambda>j m.
            bind_r (rd xij j) (\<lambda>xj.
            bind_r (rd m (9 * d + 3 * i + j)) (\<lambda>old.
            let q = (case dw of None \<Rightarrow> None | Some g \<Rightarrow> np_div (g * V * xi * xj) r)
            in wr m (9 * d + 3 * i + j) (np_add old q)))) t) = Inr t' \<and> block_kept n d m t'"
      unfolding ix bind_r_Inr by (rule inner [OF i t])
  qed
  then show ?thesis using True by (simp add: accumulate_np_def)
qed

lemma block_kept_trans: "block_kept n d m t \<Longrightarrow> block_kept n d t u \<Longrightarrow> block_kept n d m u"
  unfolding block_kept_def by metis

lemma block_kept_length: "block_kept n d m t \<Longrightarrow> length t = length m"
  by (simp add: block_kept_def)

lemma pass2_neighbour_returns:
  assumes "n \<le> 3" "9 * d + 9 \<le> length m" "neighbour_ok s_x s_y s_z s_h s_m s_rho b"
    and "length d1 = 3" "length nu = 3"
  shows "\<exists>d1' m'. pass2_neighbour G n d x y z h s_x s_y s_z s_h s_m s_rho nu den b (d1, m) =
           Inr (d1', m') \<and> length d1' = 3 \<and> block_kept n d m m'"
proof -
  define V where "V = s_m ! b / s_rho ! b"
  define xij where "xij = pair_xij x y z s_x s_y s_z b"
  define dwij where "dwij = KERNEL_gradient G xij (vnorm xij) ((h + s_h ! b) * 0.5)"
  have disp: "displacement x y z s_x s_y s_z b = Inr xij"
    using assms(3) by (simp add: neighbour_ok_def displacement_ok xij_def)
  have vol: "volume s_m s_rho b = Inr V"
    using assms(3) by (simp add: neighbour_ok_def volume_ok V_def)
  have nrm: "norm3 xij = Inr (vnorm xij)" by (simp add: norm3_ok xij_def)
  have rdh: "rd s_h b = Inr (s_h ! b)" using assms(3) by (simp add: neighbour_ok_def rd_ok)
  have "n \<le> length d1" "n \<le> length dwij" "n \<le> length nu"
    using assms(1,4,5) by (simp_all add: dwij_def)
  from debias_returns [OF this, of den]
  obtain d1' where deb: "debias n dwij nu den d1 = Inr d1'" and len1: "length d1' = 3"
    using assms(4) by auto
  from norm3_np_returns [OF len1] obtain dw where nrm1: "norm3_np d1' = Inr dw" by blast
  have "n \<le> length xij" using assms(1) by (simp add: xij_def)
  from accumulate_np_returns [OF assms(1) this assms(2), of dw V "vnorm xij"]
  obtain m' where acc: "accumulate_np n d xij dw V (vnorm xij) m = Inr m'"
    and kept: "block_kept n d m m'" by blast
  have "pass2_neighbour G n d x y z h s_x s_y s_z s_h s_m s_rho nu den b (d1, m) = Inr (d1', m')"
    unfolding pass2_neighbour_def prod.case disp vol nrm rdh bind_r_Inr Let_def
      dwij_def [symmetric] deb nrm1 acc ..
  then show ?thesis using len1 kept by blast
qed

lemma pass2_returns:
  assumes "n \<le> 3" "length nu = 3"
    and "\<forall>b \<in> set nbrs. neighbour_ok s_x s_y s_z s_h s_m s_rho b"
    and "9 * d + 9 \<le> length m" "length d1 = 3"
  shows "\<exists>st. for_r nbrs (pass2_neighbour G n d x y z h s_x s_y s_z s_h s_m s_rho nu den) (d1, m) =
           Inr st \<and> length (fst st) = 3 \<and> block_kept n d m (snd st)"
proof (rule for_r_total [where P = "\<lambda>st. length (fst st) = 3 \<and> block_kept n d m (snd st)"])
  show "length (fst (d1, m)) = 3 \<and> block_kept n d m (snd (d1, m))"
    using assms(5) by (simp add: block_kept_refl)
next
  fix b and st :: "npfloat list \<times> npfloat list"
  assume b: "b \<in> set nbrs" and st: "length (fst st) = 3 \<and> block_kept n d m (snd st)"
  obtain e t where e: "st = (e, t)" by (cases st)
  have ok: "neighbour_ok s_x s_y s_z s_h s_m s_rho b" using assms(3) b by blast
  have len: "9 * d + 9 \<le> length t" using st assms(4) by (simp add: e block_kept_def)
  have le: "length e = 3" using st by (simp add: e)
  from pass2_neighbour_returns [OF assms(1) len ok le assms(2), of G x y z h den]
  obtain e' t' where r: "pass2_neighbour G n d x y z h s_x s_y s_z s_h s_m s_rho nu den b (e, t) =
      Inr (e', t')" "length e' = 3" "block_kept n d t t'" by blast
  have "block_kept n d m t" using st by (simp add: e)
  then have "block_kept n d m t'" using r(3) by (rule block_kept_trans)
  then show "\<exists>t'. pass2_neighbour G n d x y z h s_x s_y s_z s_h s_m s_rho nu den b st = Inr t' \<and>
       length (fst t') = 3 \<and> block_kept n d m (snd t')"
    using r(1,2) by (simp add: e)
qed

lemma MixedKernelCorrectionPreStep_loop_all_returns:
  assumes "self_dim \<le> 3" "9 * d_idx + 9 \<le> length d_m_mat" "dest_ok d_x d_y d_z d_h d_idx"
    and "d_idx < length d_cwij" "N_NBRS \<le> length NBRS"
    and "\<forall>b \<in> set (take N_NBRS NBRS). neighbour_ok s_x s_y s_z s_h s_m s_rho b"
  shows "\<exists>m'. MixedKernelCorrectionPreStep_loop_all K G self_dim d_idx d_x d_y d_z d_h s_x s_y s_z s_h
           N_NBRS NBRS d_m_mat s_m s_rho d_cwij =
         Inr (m', d_cwij[d_idx := mixed_den K (d_x ! d_idx) (d_y ! d_idx) (d_z ! d_idx) (d_h ! d_idx)
                 s_x s_y s_z s_h s_m s_rho (take N_NBRS NBRS)]) \<and>
         block_kept self_dim d_idx (map Some d_m_mat) m'"
proof -
  let ?nbrs = "take N_NBRS NBRS"
  define x where "x = d_x ! d_idx"
  define y where "y = d_y ! d_idx"
  define z where "z = d_z ! d_idx"
  define h where "h = d_h ! d_idx"
  define den where "den = mixed_den K x y z h s_x s_y s_z s_h s_m s_rho ?nbrs"
  define nu where "nu = map (\<lambda>i. if i < self_dim then replicate 3 (0::real) ! i +
                   mixed_numerator G x y z h s_x s_y s_z s_h s_m s_rho ?nbrs i
                   else replicate 3 0 ! i) [0..<3]"
  have rds: "rd d_x d_idx = Inr x" "rd d_y d_idx = Inr y" "rd d_z d_idx = Inr z"
    "rd d_h d_idx = Inr h"
    using assms(3) by (simp_all add: dest_ok_def rd_ok x_def y_def z_def h_def)
  have p1: "for_r [0..<N_NBRS] (\<lambda>k st. bind_r (rd NBRS k) (\<lambda>s_idx.
              pass1_neighbour K G self_dim x y z h s_x s_y s_z s_h s_m s_rho s_idx st))
              (0, replicate 3 0) = Inr (den, nu)"
    unfolding for_r_neighbours [OF assms(5)]
    using pass1_fold [OF assms(1) _ assms(6), where nu = "replicate 3 0" and K = K and G = G
        and x = x and y = y and z = z and h = h and den = 0]
    by (simp add: den_def nu_def)
  have nu: "length nu = 3" by (simp add: nu_def)
  have wr: "wr d_cwij d_idx den = Inr (d_cwij[d_idx := den])" using assms(4) by (simp add: wr_ok)
  have "9 * d_idx + 9 \<le> length (map Some d_m_mat)" "length (replicate 3 (Some (0::real))) = 3"
    using assms(2) by simp_all
  from pass2_returns [OF assms(1) nu assms(6) this, of G x y z h den]
  obtain d1' m' where p2: "for_r ?nbrs
      (pass2_neighbour G self_dim d_idx x y z h s_x s_y s_z s_h s_m s_rho nu den)
      (replicate 3 (Some 0), map Some d_m_mat) = Inr (d1', m')"
    and kept: "block_kept self_dim d_idx (map Some d_m_mat) m'" by auto
  have p2': "for_r [0..<N_NBRS] (\<lambda>k st. bind_r (rd NBRS k) (\<lambda>s_idx.
               pass2_neighbour G self_dim d_idx x y z h s_x s_y s_z s_h s_m s_rho nu den
                 s_idx st)) (replicate 3 (Some 0), map Some d_m_mat) = Inr (d1', m')"
    unfolding for_r_neighbours [OF assms(5)] by (rule p2)
  have "MixedKernelCorrectionPreStep_loop_all K G self_dim d_idx d_x d_y d_z d_h s_x s_y s_z s_h
           N_NBRS NBRS d_m_mat s_m s_rho d_cwij = Inr (m', d_cwij[d_idx := den])"
    unfolding MixedKernelCorrectionPreStep_loop_all_def rds bind_r_Inr p1 prod.case wr p2' ..
  then show ?thesis using kept unfolding den_def x_def y_def z_def h_def by blast
qed

lemma MixedKernelCorrectionPreStep_run_returns:
  assumes "self_dim \<le> 3" "9 * d_idx + 9 \<le> length d_m_mat" "dest_ok d_x d_y d_z d_h d_idx"
    and "d_idx < length d_cwij" "N_NBRS \<le> length NBRS"
    and "\<forall>b \<in> set (take N_NBRS NBRS). neighbour_ok s_x s_y s_z s_h s_m s_rho b"
  shows "\<exists>r. MixedKernelCorrectionPreStep_run K G self_dim d_idx d_x d_y d_z d_h s_x s_y s_z s_h
           N_NBRS NBRS d_m_mat s_m s_rho d_cwij = Inr r"
proof -
  have len: "9 * d_idx + 9 \<le> length (mat_zero d_idx d_m_mat)" using assms(2) by simp
  from MixedKernelCorrectionPreStep_loop_all_returns [OF assms(1) len assms(3-6), of K G]
  show ?thesis using assms(2)
    by (auto simp: MixedKernelCorrectionPreStep_run_def MixedKernelCorrectionPreStep_initialize_eq)
qed

subsection \<open>The assemblers write inside the leading block only\<close>

lemma accumulate_outside_zero:
  assumes "n \<le> 3" "length xij = 3" "accumulate n d xij dw V r m = Inr m'" "outside_zero n d m"
  shows "outside_zero n d m'"
proof -
  have len: "9 * d + 9 \<le> length m" using assms(4) by (simp add: outside_zero_def)
  have n: "n \<le> length xij" using assms(1,2) by simp
  let ?F = "\<lambda>i j. if i < n \<and> j < n \<and> r \<ge> 1 / 10 ^ 12
                   then dw * V * xij ! i * xij ! j / r else 0"
  have m': "m' = mat_add d ?F m"
    using accumulate_eq [OF assms(1) n len, of dw V r] assms(3) by simp
  have "m' ! (9 * d + 3 * i + j) = 0" if "i < 3" "j < 3" "n \<le> i \<or> n \<le> j" for i j
  proof -
    have "9 * d + 3 * i + j < length m" using that len by simp
    then have "m' ! (9 * d + 3 * i + j) = m ! (9 * d + 3 * i + j) + ?F i j"
      unfolding m' using that by (intro mat_add_nth_in)
    moreover have "?F i j = 0" using that(3) by auto
    moreover have "m ! (9 * d + 3 * i + j) = 0"
      using assms(4) that unfolding outside_zero_def by blast
    ultimately show ?thesis by simp
  qed
  then show ?thesis using len by (simp add: outside_zero_def m')
qed

lemma GradientCorrectionPreStep_neighbour_outside_zero:
  assumes "n \<le> 3" "outside_zero n d m"
    and "GradientCorrectionPreStep_neighbour G n d s_m s_rho x y z h s_x s_y s_z s_h b m = Inr m'"
  shows "outside_zero n d m'"
proof -
  from assms(3) obtain xij dw V r where "displacement x y z s_x s_y s_z b = Inr xij"
    "accumulate n d xij dw V r m = Inr m'"
    by (auto simp: GradientCorrectionPreStep_neighbour_def bind_r_eq_Inr Let_def)
  then show ?thesis
    using accumulate_outside_zero [OF assms(1) displacement_length _ assms(2)] by blast
qed

lemma mat_zero_outside_zero: "9 * d + 9 \<le> length m \<Longrightarrow> outside_zero n d (mat_zero d m)"
  by (simp add: outside_zero_def mat_zero_def)

lemma GradientCorrectionPreStep_run_outside_zero:
  assumes "self_dim \<le> 3"
    and "GradientCorrectionPreStep_run G self_dim d_idx d_m_mat s_m s_rho d_x d_y d_z d_h
           s_x s_y s_z s_h NBRS N_NBRS = Inr m'"
  shows "outside_zero self_dim d_idx m'"
proof -
  from assms(2) obtain m0 where m0: "GradientCorrectionPreStep_initialize d_idx d_m_mat = Inr m0"
    and la: "GradientCorrectionPreStep_loop_all G self_dim d_idx m0 s_m s_rho d_x d_y d_z d_h
           s_x s_y s_z s_h NBRS N_NBRS = Inr m'"
    by (auto simp: GradientCorrectionPreStep_run_def bind_r_eq_Inr)
  from m0 have P0: "outside_zero self_dim d_idx m0"
    by (auto simp: GradientCorrectionPreStep_initialize_eq mat_zero_outside_zero split: if_splits)
  from la obtain x y z h where loop: "for_r [0..<N_NBRS] (\<lambda>k m.
       bind_r (rd NBRS k) (\<lambda>s_idx.
       GradientCorrectionPreStep_neighbour G self_dim d_idx s_m s_rho x y z h s_x s_y s_z s_h
         s_idx m)) m0 = Inr m'"
    by (auto simp: GradientCorrectionPreStep_loop_all_def bind_r_eq_Inr)
  show ?thesis
  proof (rule for_r_invariant [OF loop, where P = "outside_zero self_dim d_idx"])
    show "outside_zero self_dim d_idx m0" by (rule P0)
  next
    fix k t t'
    assume "outside_zero self_dim d_idx t"
      and "bind_r (rd NBRS k) (\<lambda>s_idx.
             GradientCorrectionPreStep_neighbour G self_dim d_idx s_m s_rho x y z h
               s_x s_y s_z s_h s_idx t) = Inr t'"
    then show "outside_zero self_dim d_idx t'"
      using GradientCorrectionPreStep_neighbour_outside_zero [OF assms(1)]
      by (auto simp: bind_r_eq_Inr)
  qed
qed

lemma pass2_neighbour_kept:
  assumes "n \<le> 3" "9 * d + 9 \<le> length (snd st)"
    and "pass2_neighbour G n d x y z h s_x s_y s_z s_h s_m s_rho nu den b st = Inr st'"
  shows "block_kept n d (snd st) (snd st')"
proof -
  obtain d1 m where st: "st = (d1, m)" by (cases st)
  from assms(3) obtain xij dw V r d1' m' where x: "displacement x y z s_x s_y s_z b = Inr xij"
    and a: "accumulate_np n d xij dw V r m = Inr m'" and s: "st' = (d1', m')"
    by (auto simp: st pass2_neighbour_def bind_r_eq_Inr Let_def)
  have "n \<le> length xij" using assms(1) displacement_length [OF x] by simp
  from accumulate_np_returns [OF assms(1) this, of d m dw V r] assms(2) a
  show ?thesis by (simp add: st s)
qed

lemma MixedKernelCorrectionPreStep_run_outside:
  assumes "self_dim \<le> 3"
    and "MixedKernelCorrectionPreStep_run K G self_dim d_idx d_x d_y d_z d_h s_x s_y s_z s_h
           N_NBRS NBRS d_m_mat s_m s_rho d_cwij = Inr (m', c')"
  shows "\<forall>i<3. \<forall>j<3. self_dim \<le> i \<or> self_dim \<le> j \<longrightarrow> m' ! (9 * d_idx + 3 * i + j) = Some 0"
proof -
  from assms(2) obtain m0 where m0: "MixedKernelCorrectionPreStep_initialize d_idx d_m_mat = Inr m0"
    and la: "MixedKernelCorrectionPreStep_loop_all K G self_dim d_idx d_x d_y d_z d_h
           s_x s_y s_z s_h N_NBRS NBRS m0 s_m s_rho d_cwij = Inr (m', c')"
    by (auto simp: MixedKernelCorrectionPreStep_run_def bind_r_eq_Inr)
  from m0 have len: "9 * d_idx + 9 \<le> length d_m_mat" and m0': "m0 = mat_zero d_idx d_m_mat"
    by (auto simp: MixedKernelCorrectionPreStep_initialize_eq split: if_splits)
  from la obtain x y z h nu den d1' where loop: "for_r [0..<N_NBRS] (\<lambda>k st.
       bind_r (rd NBRS k) (\<lambda>s_idx.
       pass2_neighbour G self_dim d_idx x y z h s_x s_y s_z s_h s_m s_rho nu den s_idx st))
       (replicate 3 (Some 0), map Some m0) = Inr (d1', m')"
    by (auto simp: MixedKernelCorrectionPreStep_loop_all_def bind_r_eq_Inr split: prod.splits)
  have kept: "block_kept self_dim d_idx (map Some m0) (snd (d1', m'))"
  proof (rule for_r_invariant [OF loop,
        where P = "\<lambda>st. block_kept self_dim d_idx (map Some m0) (snd st)"])
    show "block_kept self_dim d_idx (map Some m0) (snd (replicate 3 (Some (0::real)), map Some m0))"
      by (simp add: block_kept_refl)
  next
    fix k t t'
    assume t: "block_kept self_dim d_idx (map Some m0) (snd t)"
      and "bind_r (rd NBRS k) (\<lambda>s_idx.
             pass2_neighbour G self_dim d_idx x y z h s_x s_y s_z s_h s_m s_rho nu den s_idx t) =
           Inr t'"
    then obtain s_idx where
      p: "pass2_neighbour G self_dim d_idx x y z h s_x s_y s_z s_h s_m s_rho nu den s_idx t = Inr t'"
      by (auto simp: bind_r_eq_Inr)
    have "9 * d_idx + 9 \<le> length (snd t)"
      using block_kept_length [OF t] len by (simp add: m0')
    from pass2_neighbour_kept [OF assms(1) this p] t
    show "block_kept self_dim d_idx (map Some m0) (snd t')" by (rule block_kept_trans [rotated])
  qed
  show ?thesis
  proof (intro allI impI)
    fix i j :: nat assume h: "i < 3" "j < 3" "self_dim \<le> i \<or> self_dim \<le> j"
    have "3 * i + j < 9" using h by simp
    then have idx: "9 * d_idx + (3 * i + j) < length d_m_mat" using len by simp
    have "block_kept self_dim d_idx (map Some m0) m'" using kept by simp
    then have "m' ! (9 * d_idx + 3 * i + j) = map Some m0 ! (9 * d_idx + 3 * i + j)"
      using h unfolding block_kept_def by blast
    also have "\<dots> = Some (mat_zero d_idx d_m_mat ! (9 * d_idx + (3 * i + j)))"
      using idx by (simp add: m0' add.assoc)
    also have "\<dots> = Some 0"
      using mat_zero_nth_in [OF \<open>3 * i + j < 9\<close> idx] by simp
    finally show "m' ! (9 * d_idx + 3 * i + j) = Some 0" .
  qed
qed

lemma entries_of_dimension_2:
  assumes "\<forall>i<3. \<forall>j<3. n \<le> i \<or> n \<le> j \<longrightarrow> a ! (9 * d + 3 * i + j) = v" "n = 2"
  shows "a ! (9 * d + 2) = v \<and> a ! (9 * d + 5) = v \<and> a ! (9 * d + 6) = v \<and>
         a ! (9 * d + 7) = v \<and> a ! (9 * d + 8) = v"
proof -
  have e: "a ! (9 * d + 3 * i + j) = v" if "i < 3" "j < 3" "2 \<le> i \<or> 2 \<le> j" for i j
    using assms that by blast
  have idx: "9 * d + 3 * 0 + 2 = 9 * d + 2" "9 * d + 3 * 1 + 2 = 9 * d + 5"
    "9 * d + 3 * 2 + 0 = 9 * d + 6" "9 * d + 3 * 2 + 1 = 9 * d + 7"
    "9 * d + 3 * 2 + 2 = 9 * d + 8" by simp_all
  have "a ! (9 * d + 3 * 0 + 2) = v" "a ! (9 * d + 3 * 1 + 2) = v"
    "a ! (9 * d + 3 * 2 + 0) = v" "a ! (9 * d + 3 * 2 + 1) = v"
    "a ! (9 * d + 3 * 2 + 2) = v"
    by (rule e; simp)+
  then show ?thesis unfolding idx by blast
qed
subsection \<open>The decision of the Gradient Corrector\<close>

text \<open>
  Claim C1. Let the dimension be at most 3, let particle \<open>d_idx\<close> have its nine entries
  in \<open>d_m_mat\<close>, let \<open>DWIJ\<close> have at least \<open>dim\<close> components, and let no denominator
  \<open>|DWIJ[i]| + 1e-4 * HIJ\<close> of the metric be zero (none is when \<open>HIJ > 0\<close>). Let \<open>M\<close> be
  the leading submatrix of the particle, \<open>x\<close> the result of the solver on \<open>M\<close> and
  \<open>DWIJ\<close>, and \<open>delta\<close> the sum over \<open>i < dim\<close> of
  \<open>|DWIJ[i] - x[i]| / (|DWIJ[i]| + 1e-4 * HIJ)\<close>. Then \<open>loop\<close> returns without an
  exception; if \<open>delta \<le> tol\<close> the returned \<open>DWIJ\<close> has \<open>x[i]\<close> in every component
  \<open>i < dim\<close> and its old value in the others, and otherwise it is the old \<open>DWIJ\<close>.
\<close>

theorem GradientCorrection_decision:
  assumes "self_dim \<le> 3" "9 * d_idx + 9 \<le> length d_m_mat" "self_dim \<le> length DWIJ"
    and "\<forall>i<self_dim. \<bar>DWIJ ! i\<bar> + 1 / 10 ^ 4 * HIJ \<noteq> 0"
    and "M = leading_block self_dim d_idx d_m_mat"
    and "x = S M DWIJ self_dim"
    and "delta = (\<Sum>i<self_dim. \<bar>DWIJ ! i - x i\<bar> / (\<bar>DWIJ ! i\<bar> + 1 / 10 ^ 4 * HIJ))"
  shows "(\<forall>i<self_dim. \<forall>j<self_dim. M ! (self_dim * i + j) = d_m_mat ! (9 * d_idx + 3 * i + j)) \<and>
         (\<exists>D. GradientCorrection_loop S self_dim self_tol d_idx d_m_mat DWIJ HIJ =
                 Inr (d_m_mat, D) \<and>
              length D = length DWIJ \<and>
              (delta \<le> self_tol \<longrightarrow>
                 (\<forall>i<self_dim. D ! i = x i) \<and> (\<forall>i<length DWIJ. self_dim \<le> i \<longrightarrow> D ! i = DWIJ ! i)) \<and>
              (\<not> delta \<le> self_tol \<longrightarrow> D = DWIJ))"
proof -
  have block: "\<forall>i<self_dim. \<forall>j<self_dim. M ! (self_dim * i + j) = d_m_mat ! (9 * d_idx + 3 * i + j)"
    using assms(1) by (simp add: assms(5) leading_block_nth)
  have d: "relative_change_sum self_dim DWIJ x (1 / 10 ^ 4 * HIJ) = delta"
    by (simp add: relative_change_sum_def assms(7))
  let ?D = "if delta \<le> self_tol then map x [0..<self_dim] @ drop self_dim DWIJ else DWIJ"
  have run: "GradientCorrection_loop S self_dim self_tol d_idx d_m_mat DWIJ HIJ = Inr (d_m_mat, ?D)"
    using GradientCorrection_loop_eq [OF assms(1-4), of S self_tol] d
    by (simp add: assms(5,6) Let_def)
  have "length ?D = length DWIJ" using assms(3) by simp
  moreover have "\<forall>i<self_dim. ?D ! i = x i" if "delta \<le> self_tol"
    using that by (simp add: nth_append)
  moreover have "\<forall>i<length DWIJ. self_dim \<le> i \<longrightarrow> ?D ! i = DWIJ ! i" if "delta \<le> self_tol"
    using that assms(3) by (simp add: nth_append)
  moreover have "?D = DWIJ" if "\<not> delta \<le> self_tol" using that by simp
  ultimately show ?thesis using block run by blast
qed

theorem GradientCorrection_decision_witness:
  "GradientCorrection_loop (\<lambda>A b n i. b ! i / A ! (n * i + i)) 2 1 0 [2, 0, 0, 0, 2, 0, 0, 0, 0]
     [1, 1, 0] 1 = Inr ([2, 0, 0, 0, 2, 0, 0, 0, 0], [1 / 2, 1 / 2, 0]) \<and>
   GradientCorrection_loop (\<lambda>A b n i. b ! i / A ! (n * i + i)) 2 (1 / 2) 0
     [2, 0, 0, 0, 2, 0, 0, 0, 0] [1, 1, 0] 1 = Inr ([2, 0, 0, 0, 2, 0, 0, 0, 0], [1, 1, 0])"
proof -
  define S :: solver_fn where "S = (\<lambda>A b n i. b ! i / A ! (n * i + i))"
  define m :: "real list" where "m = [2, 0, 0, 0, 2, 0, 0, 0, 0]"
  define D0 :: "real list" where "D0 = [1, 1, 0]"
  have h: "(2::nat) \<le> 3" "9 * 0 + 9 \<le> length m" "2 \<le> length D0"
    "\<forall>i<2. \<bar>D0 ! i\<bar> + 1 / 10 ^ 4 * 1 \<noteq> 0"
    by (simp_all add: less_Suc_eq numeral_2_eq_2 m_def D0_def)
  have x: "S (leading_block 2 0 m) D0 2 0 = 1 / 2" "S (leading_block 2 0 m) D0 2 1 = 1 / 2"
    by (simp_all add: S_def m_def D0_def example_block)
  have delta: "(\<Sum>i<2. \<bar>D0 ! i - S (leading_block 2 0 m) D0 2 i\<bar> / (\<bar>D0 ! i\<bar> + 1 / 10 ^ 4 * 1)) =
               10000 / 10001"
    using example_change
    by (simp add: relative_change_sum_def S_def m_def D0_def example_block)
  note inst = GradientCorrection_decision [OF h refl refl refl, of S, unfolded delta]
  from inst [of 1] obtain D where D: "GradientCorrection_loop S 2 1 0 m D0 1 = Inr (m, D)"
    "length D = length D0" "\<forall>i<2. D ! i = S (leading_block 2 0 m) D0 2 i"
    "\<forall>i<length D0. 2 \<le> i \<longrightarrow> D ! i = D0 ! i"
    by auto
  have "D ! 0 = 1 / 2" "D ! 1 = 1 / 2" "D ! 2 = 0" using D(3,4) x by (simp_all add: D0_def)
  moreover have "length D = 3" using D(2) by (simp add: D0_def)
  ultimately have "D = [1 / 2, 1 / 2, 0]" by (subst list3 [of D]) (simp_all only:)
  then have accept: "GradientCorrection_loop S 2 1 0 m D0 1 = Inr (m, [1 / 2, 1 / 2, 0])"
    using D(1) by simp
  from inst [of "1 / 2"] have reject: "GradientCorrection_loop S 2 (1 / 2) 0 m D0 1 = Inr (m, D0)"
    by auto
  show ?thesis using accept reject unfolding S_def m_def D0_def by simp
qed

subsection \<open>The moment matrix\<close>

text \<open>
  Claim C2. Let particle \<open>d_idx\<close> have its nine entries in \<open>d_m_mat\<close> and its position
  and smoothing length \<open>x, y, z, h\<close> in the arrays of the destination, let the dimension
  be at most 3, and let every neighbour have its entries in the arrays of the sources and a
  density that is not zero. Then
  \<^item> \<open>initialize\<close> sets the nine entries to zero;
  \<^item> \<open>initialize\<close> followed by \<open>loop_all\<close> leaves in entry \<open>3 * i + j\<close> of the
    particle, for \<open>i, j\<close> below the dimension, the sum over the neighbours of
    \<open>gcp_term\<close>, and zero in the other entries;
  \<^item> the step of one neighbour adds its \<open>gcp_term\<close> to these entries;
  \<^item> \<open>gcp_term\<close> is \<open>|grad W_ab| * V * xij[i] * xij[j] / r\<close> when \<open>r \<ge> 1e-12\<close> and 0
    otherwise;
  \<^item> for a neighbour with \<open>r < 1e-12\<close> the step returns the array as it was, without
    raising: the division by \<open>r\<close> is not evaluated.
\<close>

theorem GradientCorrectionPreStep_moment_matrix:
  assumes "self_dim \<le> 3" "9 * d_idx + 9 \<le> length d_m_mat" "dest_ok d_x d_y d_z d_h d_idx"
    and "N_NBRS \<le> length NBRS"
    and "\<forall>b \<in> set (take N_NBRS NBRS). neighbour_ok s_x s_y s_z s_h s_m s_rho b"
    and "x = d_x ! d_idx" "y = d_y ! d_idx" "z = d_z ! d_idx" "h = d_h ! d_idx"
  shows "GradientCorrectionPreStep_initialize d_idx d_m_mat = Inr (mat_zero d_idx d_m_mat) \<and>
         GradientCorrectionPreStep_run G self_dim d_idx d_m_mat s_m s_rho d_x d_y d_z d_h
             s_x s_y s_z s_h NBRS N_NBRS =
           Inr (mat_add d_idx (\<lambda>i j. if i < self_dim \<and> j < self_dim
                  then (\<Sum>b\<leftarrow>take N_NBRS NBRS.
                          gcp_term G x y z h s_x s_y s_z s_h s_m s_rho b i j) else 0)
                (mat_zero d_idx d_m_mat)) \<and>
         (\<forall>b \<in> set (take N_NBRS NBRS).
            GradientCorrectionPreStep_neighbour G self_dim d_idx s_m s_rho x y z h s_x s_y s_z s_h
                b d_m_mat =
              Inr (mat_add d_idx (\<lambda>i j. if i < self_dim \<and> j < self_dim
                     then gcp_term G x y z h s_x s_y s_z s_h s_m s_rho b i j else 0) d_m_mat) \<and>
            (\<forall>i j. gcp_term G x y z h s_x s_y s_z s_h s_m s_rho b i j =
               (let xij = pair_xij x y z s_x s_y s_z b; r = vnorm xij;
                    V = s_m ! b / s_rho ! b;
                    g = vnorm (pair_gradient G x y z h s_x s_y s_z s_h b)
                in if r \<ge> 1 / 10 ^ 12 then g * V * xij ! i * xij ! j / r else 0)) \<and>
            (vnorm (pair_xij x y z s_x s_y s_z b) < 1 / 10 ^ 12 \<longrightarrow>
               GradientCorrectionPreStep_neighbour G self_dim d_idx s_m s_rho x y z h
                 s_x s_y s_z s_h b d_m_mat = Inr d_m_mat))"
proof -
  have init: "GradientCorrectionPreStep_initialize d_idx d_m_mat = Inr (mat_zero d_idx d_m_mat)"
    using assms(2) by (simp add: GradientCorrectionPreStep_initialize_eq)
  have len: "9 * d_idx + 9 \<le> length (mat_zero d_idx d_m_mat)" using assms(2) by simp
  have run: "GradientCorrectionPreStep_run G self_dim d_idx d_m_mat s_m s_rho d_x d_y d_z d_h
             s_x s_y s_z s_h NBRS N_NBRS =
           Inr (mat_add d_idx (\<lambda>i j. if i < self_dim \<and> j < self_dim
                  then (\<Sum>b\<leftarrow>take N_NBRS NBRS.
                          gcp_term G x y z h s_x s_y s_z s_h s_m s_rho b i j) else 0)
                (mat_zero d_idx d_m_mat))"
    unfolding GradientCorrectionPreStep_run_def init assms(6-9)
    by (simp add: GradientCorrectionPreStep_loop_all_eq [OF assms(1) len assms(3,4,5)])
  have nb: "GradientCorrectionPreStep_neighbour G self_dim d_idx s_m s_rho x y z h s_x s_y s_z s_h
                b d_m_mat =
              Inr (mat_add d_idx (\<lambda>i j. if i < self_dim \<and> j < self_dim
                     then gcp_term G x y z h s_x s_y s_z s_h s_m s_rho b i j else 0) d_m_mat)"
    if "b \<in> set (take N_NBRS NBRS)" for b
    using that assms(5) by (intro GradientCorrectionPreStep_neighbour_eq assms(1,2)) simp
  have tm: "gcp_term G x y z h s_x s_y s_z s_h s_m s_rho b i j =
               (let xij = pair_xij x y z s_x s_y s_z b; r = vnorm xij;
                    V = s_m ! b / s_rho ! b;
                    g = vnorm (pair_gradient G x y z h s_x s_y s_z s_h b)
                in if r \<ge> 1 / 10 ^ 12 then g * V * xij ! i * xij ! j / r else 0)" for b i j
    by (simp add: gcp_term_def moment_term_def Let_def)
  have skip: "GradientCorrectionPreStep_neighbour G self_dim d_idx s_m s_rho x y z h
                 s_x s_y s_z s_h b d_m_mat = Inr d_m_mat"
    if "b \<in> set (take N_NBRS NBRS)" "vnorm (pair_xij x y z s_x s_y s_z b) < 1 / 10 ^ 12" for b
  proof -
    have "gcp_term G x y z h s_x s_y s_z s_h s_m s_rho b i j = 0" for i j
      using that(2) by (simp add: gcp_term_def moment_term_def)
    then show ?thesis using nb [OF that(1)] by (simp cong: if_cong)
  qed
  show ?thesis using init run nb tm skip by blast
qed

theorem GradientCorrectionPreStep_moment_matrix_witness:
  "GradientCorrectionPreStep_initialize 0 [7, 7, 7, 7, 7, 7, 7, 7, 7] =
     Inr [0, 0, 0, 0, 0, 0, 0, 0, 0] \<and>
   GradientCorrectionPreStep_run (\<lambda>xij r h. (- (xij ! 0), - (xij ! 1), - (xij ! 2))) 2 0
       [7, 7, 7, 7, 7, 7, 7, 7, 7] [1, 1] [1, 1] [0] [0] [0] [1] [0, 1] [0, 0] [0, 0] [1, 1]
       [0, 1] 2 =
     Inr [1, 0, 0, 0, 0, 0, 0, 0, 0] \<and>
   GradientCorrectionPreStep_neighbour (\<lambda>xij r h. (- (xij ! 0), - (xij ! 1), - (xij ! 2))) 2 0
       [1, 1] [1, 1] 0 0 0 1 [0, 1] [0, 0] [0, 0] [1, 1] 0 [7, 7, 7, 7, 7, 7, 7, 7, 7] =
     Inr [7, 7, 7, 7, 7, 7, 7, 7, 7]"
proof -
  define G :: gradient_fn where "G = (\<lambda>xij r h. (- (xij ! 0), - (xij ! 1), - (xij ! 2)))"
  have zero: "mat_zero 0 [7, 7, 7, 7, 7, 7, 7, 7, 7] = [0, 0, 0, 0, 0, 0, 0, 0, 0]"
    by (simp add: mat_zero_def upt_rec_numeral)
  have self: "gcp_term G 0 0 0 1 [0, 1] [0, 0] [0, 0] [1, 1] [1, 1] [1, 1] 0 i j = 0" for i j
    by (simp add: G_def gcp_term_def moment_term_def pair_gradient_def pair_xij_def vnorm_def
        KERNEL_gradient_def)
  have other: "gcp_term G 0 0 0 1 [0, 1] [0, 0] [0, 0] [1, 1] [1, 1] [1, 1] (Suc 0) i j =
               [- 1, 0, 0] ! i * [- 1, 0, 0] ! j" for i j
    by (simp add: G_def gcp_term_def moment_term_def pair_gradient_def pair_xij_def vnorm_def
        KERNEL_gradient_def)
  have added: "mat_add 0 (\<lambda>i j. if i < 2 \<and> j < 2 then [- 1, 0, 0] ! i * [- 1, 0, 0] ! j else 0)
                 [0, 0, 0, 0, 0, 0, 0, 0, 0] = [1, 0, 0, 0, 0, 0, 0, 0, 0]"
    by (simp add: mat_add_def upt_rec_numeral)
  have near: "vnorm (pair_xij 0 0 0 [0, 1] [0, 0] [0, 0] 0) < 1 / 10 ^ 12"
    by (simp add: pair_xij_def vnorm_def)
  have ok: "dest_ok [0] [0] [0] [1] 0"
    "\<forall>b \<in> set (take 2 [0, 1]). neighbour_ok [0, 1] [0, 0] [0, 0] [1, 1] [1, 1] [1, 1] b"
    by (simp_all add: dest_ok_def neighbour_ok_def)
  have "(2::nat) \<le> 3" "9 * 0 + 9 \<le> length [7, 7, 7, 7, 7, 7, 7, 7, 7::real]"
    "(2::nat) \<le> length [0, 1::nat]" "(0::real) = [0] ! 0" "(1::real) = [1] ! 0"
    by simp_all
  note inst = GradientCorrectionPreStep_moment_matrix [where G = G, OF this(1,2) ok(1) this(3)
      ok(2) this(4,4,4,5)]
  have mem: "0 \<in> set (take 2 [0, 1::nat])" by simp
  have init: "GradientCorrectionPreStep_initialize 0 [7, 7, 7, 7, 7, 7, 7, 7, 7] =
     Inr [0, 0, 0, 0, 0, 0, 0, 0, 0]"
    using inst zero by simp
  have skip: "GradientCorrectionPreStep_neighbour G 2 0
       [1, 1] [1, 1] 0 0 0 1 [0, 1] [0, 0] [0, 0] [1, 1] 0 [7, 7, 7, 7, 7, 7, 7, 7, 7] =
     Inr [7, 7, 7, 7, 7, 7, 7, 7, 7]"
    using inst mem near by blast
  have run: "GradientCorrectionPreStep_run G 2 0
       [7, 7, 7, 7, 7, 7, 7, 7, 7] [1, 1] [1, 1] [0] [0] [0] [1] [0, 1] [0, 0] [0, 0] [1, 1]
       [0, 1] 2 =
     Inr (mat_add 0 (\<lambda>i j. if i < 2 \<and> j < 2
            then (\<Sum>b\<leftarrow>take 2 [0, 1].
                    gcp_term G 0 0 0 1 [0, 1] [0, 0] [0, 0] [1, 1] [1, 1] [1, 1] b i j) else 0)
          (mat_zero 0 [7, 7, 7, 7, 7, 7, 7, 7, 7]))"
    using inst by blast
  have val: "mat_add 0 (\<lambda>i j. if i < 2 \<and> j < 2
            then (\<Sum>b\<leftarrow>take 2 [0, 1].
                    gcp_term G 0 0 0 1 [0, 1] [0, 0] [0, 0] [1, 1] [1, 1] [1, 1] b i j) else 0)
          (mat_zero 0 [7, 7, 7, 7, 7, 7, 7, 7, 7]) = [1, 0, 0, 0, 0, 0, 0, 0, 0]"
    by (simp add: zero self other added cong: if_cong)
  show ?thesis using init skip run [unfolded val] unfolding G_def by simp
qed

subsection \<open>The two passes of the Mixed Assembler\<close>

text \<open>
  Claim C3. Let the dimension be at most 3, let particle \<open>d_idx\<close> have its entries in
  the arrays of the destination, in \<open>d_m_mat\<close> and in \<open>d_cwij\<close>, let every neighbour have
  its entries in the arrays of the sources and a density that is not zero, and let
  \<open>den\<close>, the sum over the neighbours of \<open>V_b * W_ab\<close>, not be zero. With \<open>num i\<close> the sum
  over the neighbours of \<open>V_b * grad W_ab[i]\<close>:
  \<^item> pass 1 ends with \<open>den\<close> and with \<open>numerator[i] = num i\<close> for \<open>i\<close> below the dimension;
  \<^item> \<open>loop_all\<close> returns \<open>d_cwij\<close> with \<open>den\<close> in entry \<open>d_idx\<close>, and \<open>d_m_mat\<close> with the
    sum over the neighbours of \<open>mixed_term\<close> added to entry \<open>3 * i + j\<close> of the particle,
    for \<open>i, j\<close> below the dimension; every entry of the array returned is a finite number
    (\<open>Some\<close>);
  \<^item> \<open>mixed_term\<close> is \<open>|dwij1| * V * xij[i] * xij[j] / r\<close> when \<open>r \<ge> 1e-12\<close> and 0
    otherwise, the formula of the Moment-Matrix Assembler with \<open>|dwij1|\<close> for
    \<open>|grad W_ab|\<close>;
  \<^item> \<open>dwij1[i] = (grad W_ab[i] - num i / den) / den\<close> for \<open>i\<close> below the dimension.
\<close>

theorem MixedKernelCorrectionPreStep_two_passes:
  assumes "self_dim \<le> 3" "9 * d_idx + 9 \<le> length d_m_mat" "dest_ok d_x d_y d_z d_h d_idx"
    and "d_idx < length d_cwij" "N_NBRS \<le> length NBRS"
    and "\<forall>b \<in> set (take N_NBRS NBRS). neighbour_ok s_x s_y s_z s_h s_m s_rho b"
    and "x = d_x ! d_idx" "y = d_y ! d_idx" "z = d_z ! d_idx" "h = d_h ! d_idx"
    and "den = (\<Sum>b\<leftarrow>take N_NBRS NBRS.
                  s_m ! b / s_rho ! b * pair_kernel K x y z h s_x s_y s_z s_h b)"
    and "num = (\<lambda>i. \<Sum>b\<leftarrow>take N_NBRS NBRS.
                  s_m ! b / s_rho ! b * pair_gradient G x y z h s_x s_y s_z s_h b ! i)"
    and "den \<noteq> 0"
  shows "for_r (take N_NBRS NBRS) (pass1_neighbour K G self_dim x y z h s_x s_y s_z s_h s_m s_rho)
           (0, replicate 3 0) =
           Inr (den, map (\<lambda>i. if i < self_dim then num i else 0) [0..<3]) \<and>
         MixedKernelCorrectionPreStep_loop_all K G self_dim d_idx d_x d_y d_z d_h s_x s_y s_z s_h
           N_NBRS NBRS d_m_mat s_m s_rho d_cwij =
           Inr (map Some (mat_add d_idx (\<lambda>i j. if i < self_dim \<and> j < self_dim
                  then (\<Sum>b\<leftarrow>take N_NBRS NBRS.
                          mixed_term G self_dim x y z h s_x s_y s_z s_h s_m s_rho num den b i j)
                  else 0) d_m_mat),
                d_cwij[d_idx := den]) \<and>
         (\<forall>b i j. mixed_term G self_dim x y z h s_x s_y s_z s_h s_m s_rho num den b i j =
            (let xij = pair_xij x y z s_x s_y s_z b; r = vnorm xij;
                 V = s_m ! b / s_rho ! b;
                 dwij1 = debiased self_dim (pair_gradient G x y z h s_x s_y s_z s_h b) num den
             in if r \<ge> 1 / 10 ^ 12 then vnorm dwij1 * V * xij ! i * xij ! j / r else 0)) \<and>
         (\<forall>dwij. \<forall>i<self_dim. debiased self_dim dwij num den ! i = (dwij ! i - num i / den) / den)"
proof -
  have den: "den = mixed_den K x y z h s_x s_y s_z s_h s_m s_rho (take N_NBRS NBRS)"
    by (simp add: assms(11) mixed_den_def)
  have num: "num = mixed_numerator G x y z h s_x s_y s_z s_h s_m s_rho (take N_NBRS NBRS)"
    by (intro ext) (simp add: assms(12) mixed_numerator_def)
  have "map (\<lambda>i. if i < self_dim then replicate 3 (0::real) ! i + num i else replicate 3 0 ! i)
          [0..<3] = map (\<lambda>i. if i < self_dim then num i else 0) [0..<3]"
    by (intro nth_equalityI) auto
  then have p1: "for_r (take N_NBRS NBRS)
           (pass1_neighbour K G self_dim x y z h s_x s_y s_z s_h s_m s_rho) (0, replicate 3 0) =
           Inr (den, map (\<lambda>i. if i < self_dim then num i else 0) [0..<3])"
    using pass1_fold [OF assms(1) _ assms(6), where nu = "replicate 3 0" and K = K and G = G
        and x = x and y = y and z = z and h = h and den = 0]
    by (simp add: den num)
  note run = MixedKernelCorrectionPreStep_loop_all_eq [OF assms(1-10) den num assms(13)]
  have tm: "mixed_term G self_dim x y z h s_x s_y s_z s_h s_m s_rho num den b i j =
            (let xij = pair_xij x y z s_x s_y s_z b; r = vnorm xij;
                 V = s_m ! b / s_rho ! b;
                 dwij1 = debiased self_dim (pair_gradient G x y z h s_x s_y s_z s_h b) num den
             in if r \<ge> 1 / 10 ^ 12 then vnorm dwij1 * V * xij ! i * xij ! j / r else 0)" for b i j
    by (simp add: mixed_term_def moment_term_def Let_def)
  have deb: "debiased self_dim dwij num den ! i = (dwij ! i - num i / den) / den"
    if "i < self_dim" for dwij i
    using that assms(1) by (simp add: debiased_def)
  show ?thesis using p1 run tm deb by blast
qed

theorem MixedKernelCorrectionPreStep_two_passes_witness:
  "MixedKernelCorrectionPreStep_loop_all (\<lambda>xij r h. 1)
     (\<lambda>xij r h. (- (xij ! 0), - (xij ! 1), - (xij ! 2))) 2 0 [0] [0] [0] [1]
     [0, 1] [0, 0] [0, 0] [1, 1] 2 [0, 1] [7, 7, 7, 7, 7, 7, 7, 7, 7] [1, 1] [1, 1] [5] =
   Inr ([Some (29 / 4), Some 7, Some 7, Some 7, Some 7, Some 7, Some 7, Some 7, Some 7], [2])"
proof -
  define K :: kernel_fn where "K = (\<lambda>xij r h. 1)"
  define G :: gradient_fn where "G = (\<lambda>xij r h. (- (xij ! 0), - (xij ! 1), - (xij ! 2)))"
  have pg: "pair_gradient G 0 0 0 1 [0, 1] [0, 0] [0, 0] [1, 1] 0 = [0, 0, 0]"
    "pair_gradient G 0 0 0 1 [0, 1] [0, 0] [0, 0] [1, 1] (Suc 0) = [1, 0, 0]"
    by (simp_all add: pair_gradient_def pair_xij_def KERNEL_gradient_def G_def)
  have px: "pair_xij 0 0 0 [0, 1] [0, 0] [0, 0] 0 = [0, 0, 0]"
    "pair_xij 0 0 0 [0, 1] [0, 0] [0, 0] (Suc 0) = [- 1, 0, 0]"
    by (simp_all add: pair_xij_def)
  define den :: real where "den = (\<Sum>b\<leftarrow>take 2 [0, 1].
                  [1, 1] ! b / [1, 1] ! b * pair_kernel K 0 0 0 1 [0, 1] [0, 0] [0, 0] [1, 1] b)"
  define num :: "nat \<Rightarrow> real" where "num = (\<lambda>i. \<Sum>b\<leftarrow>take 2 [0, 1].
                  [1, 1] ! b / [1, 1] ! b * pair_gradient G 0 0 0 1 [0, 1] [0, 0] [0, 0] [1, 1] b ! i)"
  have den2: "den = 2" by (simp add: den_def pair_kernel_def K_def)
  have numv: "num 0 = 1" "num (Suc 0) = 0" by (simp_all add: num_def pg)
  have deb: "debiased 2 [0, 0, 0] num den = [- 1 / 4, 0, 0]"
    "debiased 2 [1, 0, 0] num den = [1 / 4, 0, 0]"
    by (simp_all add: debiased_def den2 numv numeral_3_eq_3)
  have t0: "mixed_term G 2 0 0 0 1 [0, 1] [0, 0] [0, 0] [1, 1] [1, 1] [1, 1] num den 0 i j = 0" for i j
    by (simp add: mixed_term_def moment_term_def px vnorm_axis)
  have t1: "mixed_term G 2 0 0 0 1 [0, 1] [0, 0] [0, 0] [1, 1] [1, 1] [1, 1] num den (Suc 0) i j =
            1 / 4 * [- 1, 0, 0] ! i * [- 1, 0, 0] ! j" for i j
    by (simp add: mixed_term_def moment_term_def px pg deb vnorm_axis)
  have val: "mat_add 0 (\<lambda>i j. if i < 2 \<and> j < 2
               then (\<Sum>b\<leftarrow>take 2 [0, 1].
                       mixed_term G 2 0 0 0 1 [0, 1] [0, 0] [0, 0] [1, 1] [1, 1] [1, 1] num den b i j)
               else 0) [7, 7, 7, 7, 7, 7, 7, 7, 7] = [29 / 4, 7, 7, 7, 7, 7, 7, 7, 7]"
    by (simp add: t0 t1 mat_add_def upt_9 cong: if_cong)
  have h: "(2::nat) \<le> 3" "9 * 0 + 9 \<le> length [7, 7, 7, 7, 7, 7, 7, 7, 7::real]"
    "dest_ok [0] [0] [0] [1] 0" "0 < length [5::real]" "(2::nat) \<le> length [0, 1::nat]"
    "\<forall>b \<in> set (take 2 [0, 1]). neighbour_ok [0, 1] [0, 0] [0, 0] [1, 1] [1, 1] [1, 1] b"
    "(0::real) = [0] ! 0" "(0::real) = [0] ! 0" "(0::real) = [0] ! 0" "(1::real) = [1] ! 0"
    by (simp_all add: dest_ok_def neighbour_ok_def)
  have "den \<noteq> 0" by (simp add: den2)
  note inst = MixedKernelCorrectionPreStep_two_passes [OF h den_def num_def this]
  from inst have "MixedKernelCorrectionPreStep_loop_all K G 2 0 [0] [0] [0] [1]
     [0, 1] [0, 0] [0, 0] [1, 1] 2 [0, 1] [7, 7, 7, 7, 7, 7, 7, 7, 7] [1, 1] [1, 1] [5] =
     Inr (map Some (mat_add 0 (\<lambda>i j. if i < 2 \<and> j < 2
               then (\<Sum>b\<leftarrow>take 2 [0, 1].
                       mixed_term G 2 0 0 0 1 [0, 1] [0, 0] [0, 0] [1, 1] [1, 1] [1, 1] num den b i j)
               else 0) [7, 7, 7, 7, 7, 7, 7, 7, 7]), [5][0 := den])"
    by blast
  then have "MixedKernelCorrectionPreStep_loop_all K G 2 0 [0] [0] [0] [1]
     [0, 1] [0, 0] [0, 0] [1, 1] 2 [0, 1] [7, 7, 7, 7, 7, 7, 7, 7, 7] [1, 1] [1, 1] [5] =
     Inr (map Some [29 / 4, 7, 7, 7, 7, 7, 7, 7, 7], [5][0 := den])"
    unfolding val .
  then show ?thesis unfolding den2 K_def G_def by simp
qed

subsection \<open>Which divisions are guarded\<close>




subsection \<open>The kernel sum\<close>

text \<open>
  Claim C5. For a particle whose slot \<open>d_idx\<close> exists and neighbours whose mass and
  density exist, with no density equal to zero: \<open>initialize\<close> stores 0 in
  \<open>d_cwij[d_idx]\<close>, and after \<open>initialize\<close> and one \<open>loop\<close> for each neighbour \<open>b\<close>,
  \<open>d_cwij[d_idx]\<close> is the sum over the neighbours of \<open>(m_b / rho_b) * W_ab\<close>. The
  only array the two methods assign to is \<open>d_cwij\<close>, and every other entry of it is as
  before.
\<close>

theorem KernelCorrection_sum:
  assumes "d_idx < length d_cwij"
    and "\<forall>b \<in> set nbrs. b < length s_m \<and> b < length s_rho \<and> s_rho ! b \<noteq> 0"
  shows "KernelCorrection_initialize d_idx d_cwij = Inr (d_cwij[d_idx := 0]) \<and>
         KernelCorrection_run W d_idx nbrs d_cwij s_m s_rho =
           Inr (d_cwij[d_idx := (\<Sum>b\<leftarrow>nbrs. s_m ! b / s_rho ! b * W b)])"
proof -
  have init: "KernelCorrection_initialize d_idx d_cwij = Inr (d_cwij[d_idx := 0])"
    using assms(1) by (simp add: KernelCorrection_initialize_def wr_ok)
  have "d_idx < length (d_cwij[d_idx := 0])" using assms(1) by simp
  from KernelCorrection_fold [OF this assms(2), of W] assms(1) init
  show ?thesis by (simp add: KernelCorrection_run_def)
qed

theorem KernelCorrection_sum_witness:
  "KernelCorrection_initialize 0 [5] = Inr [0] \<and>
   KernelCorrection_run (\<lambda>b. 1) 0 [0, 1] [5] [1, 2] [1, 4] = Inr [3 / 2]"
  using KernelCorrection_sum [of 0 "[5]" "[0, 1]" "[1, 2]" "[1, 4]" "\<lambda>b. 1"] by simp

subsection \<open>Dimensional zeroing\<close>

text \<open>
  Claim C6. For both assemblers, every neighbour configuration and every dimension:
  whenever \<open>initialize\<close> followed by \<open>loop_all\<close> returns, every entry of the particle's
  matrix in a row or a column from the dimension on is zero; with dimension 2 these are the
  flattened entries 2, 5, 6, 7 and 8. For the Mixed Assembler this holds whatever \<open>den\<close>
  is: an infinity or NaN is stored in the leading block only, and the entries outside it
  are the finite number 0 (\<open>Some 0\<close>).
\<close>

theorem dimensional_zeroing:
  "(GradientCorrectionPreStep_run G self_dim d_idx d_m_mat s_m s_rho d_x d_y d_z d_h
      s_x s_y s_z s_h NBRS N_NBRS = Inr m \<longrightarrow>
      (\<forall>i<3. \<forall>j<3. self_dim \<le> i \<or> self_dim \<le> j \<longrightarrow> m ! (9 * d_idx + 3 * i + j) = 0) \<and>
      (self_dim = 2 \<longrightarrow> m ! (9 * d_idx + 2) = 0 \<and> m ! (9 * d_idx + 5) = 0 \<and>
         m ! (9 * d_idx + 6) = 0 \<and> m ! (9 * d_idx + 7) = 0 \<and> m ! (9 * d_idx + 8) = 0)) \<and>
   (MixedKernelCorrectionPreStep_run K G' self_dim d_idx d_x d_y d_z d_h s_x s_y s_z s_h
      N_NBRS NBRS d_m_mat s_m s_rho d_cwij = Inr (m', c') \<longrightarrow>
      (\<forall>i<3. \<forall>j<3. self_dim \<le> i \<or> self_dim \<le> j \<longrightarrow> m' ! (9 * d_idx + 3 * i + j) = Some 0) \<and>
      (self_dim = 2 \<longrightarrow> m' ! (9 * d_idx + 2) = Some 0 \<and> m' ! (9 * d_idx + 5) = Some 0 \<and>
         m' ! (9 * d_idx + 6) = Some 0 \<and> m' ! (9 * d_idx + 7) = Some 0 \<and>
         m' ! (9 * d_idx + 8) = Some 0))"
proof -
  have all: "\<forall>i<3. \<forall>j<3. self_dim \<le> i \<or> self_dim \<le> j \<longrightarrow> a ! (9 * d_idx + 3 * i + j) = 0"
    if "self_dim \<le> 3 \<Longrightarrow> outside_zero self_dim d_idx a" for a
  proof (cases "self_dim \<le> 3")
    case True
    then show ?thesis using that by (simp add: outside_zero_def)
  next
    case False
    then show ?thesis by auto
  qed
  have g: "\<forall>i<3. \<forall>j<3. self_dim \<le> i \<or> self_dim \<le> j \<longrightarrow> m ! (9 * d_idx + 3 * i + j) = 0"
    if r: "GradientCorrectionPreStep_run G self_dim d_idx d_m_mat s_m s_rho d_x d_y d_z d_h
      s_x s_y s_z s_h NBRS N_NBRS = Inr m"
    by (rule all) (rule GradientCorrectionPreStep_run_outside_zero [OF _ r])
  have x: "\<forall>i<3. \<forall>j<3. self_dim \<le> i \<or> self_dim \<le> j \<longrightarrow> m' ! (9 * d_idx + 3 * i + j) = Some 0"
    if r: "MixedKernelCorrectionPreStep_run K G' self_dim d_idx d_x d_y d_z d_h s_x s_y s_z s_h
      N_NBRS NBRS d_m_mat s_m s_rho d_cwij = Inr (m', c')"
  proof (cases "self_dim \<le> 3")
    case True
    then show ?thesis by (rule MixedKernelCorrectionPreStep_run_outside [OF _ r])
  next
    case False
    then show ?thesis by auto
  qed
  show ?thesis
    using g x entries_of_dimension_2 [of self_dim m d_idx 0]
      entries_of_dimension_2 [of self_dim m' d_idx "Some 0"] by blast
qed

theorem dimensional_zeroing_witness:
  "GradientCorrectionPreStep_run (\<lambda>xij r h. (- (xij ! 0), - (xij ! 1), - (xij ! 2))) 2 0
     [7, 7, 7, 7, 7, 7, 7, 7, 7] [1, 1] [1, 1] [0, 1] [0, 0] [0, 0] [1, 1]
     [0, 1] [0, 0] [0, 0] [1, 1] [0, 1] 2 = Inr [1, 0, 0, 0, 0, 0, 0, 0, 0] \<and>
   [1, 0, 0, 0, 0, 0, 0, 0, 0] ! (9 * 0 + 2) = (0::real) \<and>
   [1, 0, 0, 0, 0, 0, 0, 0, 0] ! (9 * 0 + 5) = (0::real) \<and>
   MixedKernelCorrectionPreStep_run (\<lambda>xij r h. 1)
     (\<lambda>xij r h. (- (xij ! 0), - (xij ! 1), - (xij ! 2))) 2 0 [0] [0] [0] [1]
     [0, 1] [0, 0] [0, 0] [1, 1] 2 [0, 1] [7, 7, 7, 7, 7, 7, 7, 7, 7] [1, 1] [1, 1] [5] =
     Inr ([Some (1 / 4), Some 0, Some 0, Some 0, Some 0, Some 0, Some 0, Some 0, Some 0], [2]) \<and>
   [Some (1 / 4), Some 0, Some 0, Some 0, Some 0, Some 0, Some 0, Some 0, Some 0] ! (9 * 0 + 8) =
     Some (0::real)"
proof -
  have g: "GradientCorrectionPreStep_run (\<lambda>xij r h. (- (xij ! 0), - (xij ! 1), - (xij ! 2))) 2 0
     [7, 7, 7, 7, 7, 7, 7, 7, 7] [1, 1] [1, 1] [0, 1] [0, 0] [0, 0] [1, 1]
     [0, 1] [0, 0] [0, 0] [1, 1] [0, 1] 2 = Inr [1, 0, 0, 0, 0, 0, 0, 0, 0]"
    using two_particles_assembly [of "\<lambda>xij r h. (- (xij ! 0), - (xij ! 1), - (xij ! 2))"
        "[7, 7, 7, 7, 7, 7, 7, 7, 7]"] by simp
  have m: "MixedKernelCorrectionPreStep_run (\<lambda>xij r h. 1)
     (\<lambda>xij r h. (- (xij ! 0), - (xij ! 1), - (xij ! 2))) 2 0 [0] [0] [0] [1]
     [0, 1] [0, 0] [0, 0] [1, 1] 2 [0, 1] [7, 7, 7, 7, 7, 7, 7, 7, 7] [1, 1] [1, 1] [5] =
     Inr ([Some (1 / 4), Some 0, Some 0, Some 0, Some 0, Some 0, Some 0, Some 0, Some 0], [2])"
    using two_particles_mixed by simp
  from dimensional_zeroing [where self_dim = 2, THEN conjunct1, rule_format, OF g]
  have "[1, 0, 0, 0, 0, 0, 0, 0, 0] ! (9 * 0 + 2) = (0::real)"
    "[1, 0, 0, 0, 0, 0, 0, 0, 0] ! (9 * 0 + 5) = (0::real)" by simp_all
  moreover from dimensional_zeroing [where self_dim = 2, THEN conjunct2, rule_format, OF m]
  have "[Some (1 / 4), Some 0, Some 0, Some 0, Some 0, Some 0, Some 0, Some 0, Some 0] ! (9 * 0 + 8) =
     Some (0::real)" by simp
  ultimately show ?thesis using g m by simp
qed
subsection \<open>The order of the neighbours\<close>

text \<open>
  Claim C7. In exact arithmetic the order of the neighbours does not matter: if the
  neighbour list is permuted (the two lists have the same multiset of entries), the
  Kernel-Sum Normalizer returns the same \<open>d_cwij\<close> and the Moment-Matrix Assembler the same
  \<open>d_m_mat\<close>, and both do return. The particle and the neighbours have their entries in
  the arrays and no density is zero.
\<close>

theorem neighbour_order_irrelevant:
  assumes "mset (take N_NBRS' NBRS') = mset (take N_NBRS NBRS)"
    and "N_NBRS \<le> length NBRS" "N_NBRS' \<le> length NBRS'"
    and "d_idx < length d_cwij"
    and "self_dim \<le> 3" "9 * d_idx + 9 \<le> length d_m_mat" "dest_ok d_x d_y d_z d_h d_idx"
    and "\<forall>b \<in> set (take N_NBRS NBRS). neighbour_ok s_x s_y s_z s_h s_m s_rho b"
  shows "KernelCorrection_run W d_idx (take N_NBRS' NBRS') d_cwij s_m s_rho =
           KernelCorrection_run W d_idx (take N_NBRS NBRS) d_cwij s_m s_rho \<and>
         (\<exists>c. KernelCorrection_run W d_idx (take N_NBRS NBRS) d_cwij s_m s_rho = Inr c) \<and>
         GradientCorrectionPreStep_run G self_dim d_idx d_m_mat s_m s_rho d_x d_y d_z d_h
             s_x s_y s_z s_h NBRS' N_NBRS' =
           GradientCorrectionPreStep_run G self_dim d_idx d_m_mat s_m s_rho d_x d_y d_z d_h
             s_x s_y s_z s_h NBRS N_NBRS \<and>
         (\<exists>m. GradientCorrectionPreStep_run G self_dim d_idx d_m_mat s_m s_rho d_x d_y d_z d_h
             s_x s_y s_z s_h NBRS N_NBRS = Inr m)"
proof -
  have set_eq: "set (take N_NBRS' NBRS') = set (take N_NBRS NBRS)"
    using assms(1) by (rule mset_eq_setD)
  have ok': "\<forall>b \<in> set (take N_NBRS' NBRS'). neighbour_ok s_x s_y s_z s_h s_m s_rho b"
    using assms(8) set_eq by simp
  have rho: "\<forall>b \<in> set ns. b < length s_m \<and> b < length s_rho \<and> s_rho ! b \<noteq> 0"
    if "set ns = set (take N_NBRS NBRS)" for ns
    using assms(8) that by (simp add: neighbour_ok_def)
  have init: "KernelCorrection_initialize d_idx d_cwij = Inr (d_cwij[d_idx := 0])"
    using assms(4) by (simp add: KernelCorrection_initialize_def wr_ok)
  have d: "d_idx < length (d_cwij[d_idx := 0])" using assms(4) by simp
  have k: "KernelCorrection_run W d_idx ns d_cwij s_m s_rho =
           Inr (d_cwij[d_idx := (\<Sum>b\<leftarrow>ns. s_m ! b / s_rho ! b * W b)])"
    if "set ns = set (take N_NBRS NBRS)" for ns
    using KernelCorrection_fold [OF d rho [OF that], of W] assms(4)
    by (simp add: KernelCorrection_run_def init)
  have k_eq: "KernelCorrection_run W d_idx (take N_NBRS' NBRS') d_cwij s_m s_rho =
           KernelCorrection_run W d_idx (take N_NBRS NBRS) d_cwij s_m s_rho"
    by (simp add: k set_eq sum_list_permuted [OF assms(1)])
  have init2: "GradientCorrectionPreStep_initialize d_idx d_m_mat = Inr (mat_zero d_idx d_m_mat)"
    using assms(6) by (simp add: GradientCorrectionPreStep_initialize_eq)
  have len: "9 * d_idx + 9 \<le> length (mat_zero d_idx d_m_mat)" using assms(6) by simp
  have g: "GradientCorrectionPreStep_run G self_dim d_idx d_m_mat s_m s_rho d_x d_y d_z d_h
             s_x s_y s_z s_h NBRS N_NBRS =
           Inr (mat_add d_idx (\<lambda>i j. if i < self_dim \<and> j < self_dim
                  then (\<Sum>b\<leftarrow>take N_NBRS NBRS.
                          gcp_term G (d_x ! d_idx) (d_y ! d_idx) (d_z ! d_idx) (d_h ! d_idx)
                            s_x s_y s_z s_h s_m s_rho b i j) else 0)
                (mat_zero d_idx d_m_mat))"
    by (simp add: GradientCorrectionPreStep_run_def init2
        GradientCorrectionPreStep_loop_all_eq [OF assms(5) len assms(7) assms(2) assms(8)])
  have g': "GradientCorrectionPreStep_run G self_dim d_idx d_m_mat s_m s_rho d_x d_y d_z d_h
             s_x s_y s_z s_h NBRS' N_NBRS' =
           Inr (mat_add d_idx (\<lambda>i j. if i < self_dim \<and> j < self_dim
                  then (\<Sum>b\<leftarrow>take N_NBRS' NBRS'.
                          gcp_term G (d_x ! d_idx) (d_y ! d_idx) (d_z ! d_idx) (d_h ! d_idx)
                            s_x s_y s_z s_h s_m s_rho b i j) else 0)
                (mat_zero d_idx d_m_mat))"
    by (simp add: GradientCorrectionPreStep_run_def init2
        GradientCorrectionPreStep_loop_all_eq [OF assms(5) len assms(7) assms(3) ok'])
  have g_eq: "GradientCorrectionPreStep_run G self_dim d_idx d_m_mat s_m s_rho d_x d_y d_z d_h
             s_x s_y s_z s_h NBRS' N_NBRS' =
           GradientCorrectionPreStep_run G self_dim d_idx d_m_mat s_m s_rho d_x d_y d_z d_h
             s_x s_y s_z s_h NBRS N_NBRS"
    unfolding g g' by (simp add: sum_list_permuted [OF assms(1)] cong: if_cong)
  show ?thesis using k_eq k [OF refl] g_eq g by blast
qed

theorem neighbour_order_irrelevant_witness:
  "KernelCorrection_run (\<lambda>b. 1) 0 (take 2 [1, 0]) [5] [1, 2] [1, 4] =
     KernelCorrection_run (\<lambda>b. 1) 0 (take 2 [0, 1]) [5] [1, 2] [1, 4] \<and>
   GradientCorrectionPreStep_run (\<lambda>xij r h. (- (xij ! 0), - (xij ! 1), - (xij ! 2))) 2 0
       [7, 7, 7, 7, 7, 7, 7, 7, 7] [1, 2] [1, 4] [0] [0] [0] [1] [0, 1] [0, 0] [0, 0] [1, 1]
       [1, 0] 2 =
     GradientCorrectionPreStep_run (\<lambda>xij r h. (- (xij ! 0), - (xij ! 1), - (xij ! 2))) 2 0
       [7, 7, 7, 7, 7, 7, 7, 7, 7] [1, 2] [1, 4] [0] [0] [0] [1] [0, 1] [0, 0] [0, 0] [1, 1]
       [0, 1] 2"
proof -
  have "mset (take 2 [1, 0::nat]) = mset (take 2 [0, 1])"
    "(2::nat) \<le> length [0, 1::nat]" "(2::nat) \<le> length [1, 0::nat]"
    "(0::nat) < length [5::real]" "(2::nat) \<le> 3"
    "9 * 0 + 9 \<le> length [7, 7, 7, 7, 7, 7, 7, 7, 7::real]"
    "dest_ok [0] [0] [0] [1] 0"
    "\<forall>b \<in> set (take 2 [0, 1]). neighbour_ok [0, 1] [0, 0] [0, 0] [1, 1] [1, 2] [1, 4] b"
    by (simp_all add: dest_ok_def neighbour_ok_def)
  from neighbour_order_irrelevant [OF this] show ?thesis by blast
qed

subsection \<open>The Gradient Corrector does not write the matrix\<close>

text \<open>
  Claim C8. Whenever \<open>loop\<close> returns, on the accepting branch or on the rejecting one,
  the array \<open>d_m_mat\<close> is the one it was given: the method copies the entries it needs
  into \<open>temp\<close> and assigns to \<open>temp\<close>, \<open>res\<close> and \<open>DWIJ\<close> only.
\<close>

theorem GradientCorrection_keeps_matrix:
  assumes "GradientCorrection_loop S self_dim self_tol d_idx d_m_mat DWIJ HIJ = Inr (m', D')"
  shows "m' = d_m_mat"
  using assms
  by (auto simp: GradientCorrection_loop_def Let_def bind_r_eq_Inr split: if_splits)

theorem GradientCorrection_keeps_matrix_witness:
  "GradientCorrection_loop (\<lambda>A b n i. b ! i / A ! (n * i + i)) 2 1 0 [2, 0, 0, 0, 2, 0, 0, 0, 0]
     [1, 1, 0] 1 = Inr ([2, 0, 0, 0, 2, 0, 0, 0, 0], [1 / 2, 1 / 2, 0]) \<and>
   fst (projr (GradientCorrection_loop (\<lambda>A b n i. b ! i / A ! (n * i + i)) 2 1 0
     [2, 0, 0, 0, 2, 0, 0, 0, 0] [1, 1, 0] 1)) = [2, 0, 0, 0, 2, 0, 0, 0, 0] \<and>
   GradientCorrection_loop (\<lambda>A b n i. b ! i / A ! (n * i + i)) 2 (1 / 2) 0
     [2, 0, 0, 0, 2, 0, 0, 0, 0] [1, 1, 0] 1 = Inr ([2, 0, 0, 0, 2, 0, 0, 0, 0], [1, 1, 0]) \<and>
   fst (projr (GradientCorrection_loop (\<lambda>A b n i. b ! i / A ! (n * i + i)) 2 (1 / 2) 0
     [2, 0, 0, 0, 2, 0, 0, 0, 0] [1, 1, 0] 1)) = [2, 0, 0, 0, 2, 0, 0, 0, 0]"
proof -
  define S :: solver_fn where "S = (\<lambda>A b n i. b ! i / A ! (n * i + i))"
  note runs = example_runs [folded S_def]
  obtain m1 D1 where a: "GradientCorrection_loop S 2 1 0 [2, 0, 0, 0, 2, 0, 0, 0, 0] [1, 1, 0] 1 =
      Inr (m1, D1)" using runs(1) by blast
  obtain m2 D2 where r: "GradientCorrection_loop S 2 (1 / 2) 0 [2, 0, 0, 0, 2, 0, 0, 0, 0]
      [1, 1, 0] 1 = Inr (m2, D2)" using runs(2) by blast
  have "m1 = [2, 0, 0, 0, 2, 0, 0, 0, 0]" "m2 = [2, 0, 0, 0, 2, 0, 0, 0, 0]"
    using GradientCorrection_keeps_matrix [OF a] GradientCorrection_keeps_matrix [OF r]
    by simp_all
  then have "fst (projr (GradientCorrection_loop S 2 1 0 [2, 0, 0, 0, 2, 0, 0, 0, 0] [1, 1, 0] 1)) =
      [2, 0, 0, 0, 2, 0, 0, 0, 0]"
    "fst (projr (GradientCorrection_loop S 2 (1 / 2) 0 [2, 0, 0, 0, 2, 0, 0, 0, 0] [1, 1, 0] 1)) =
      [2, 0, 0, 0, 2, 0, 0, 0, 0]"
    by (simp_all add: a r)
  then show ?thesis using runs unfolding S_def by blast
qed

subsection \<open>The worked example\<close>

text \<open>
  Claim C9, as amended. Two particles \<open>a\<close> (index 0) at \<open>(0, 0)\<close> and \<open>b\<close> (index 1) at
  \<open>(1, 0)\<close>, with \<open>h = 1\<close>, \<open>m = 1\<close>, \<open>rho = 1\<close>, dimension 2, neighbours \<open>a\<close> and
  \<open>b\<close>. The displacement of the pair is \<open>xij = x_a - x_b = (-1, 0, 0)\<close> and its distance is
  exactly 1. If the kernel gradient is \<open>-xij\<close> for \<open>r \<le> 1\<close>, the Moment-Matrix
  Assembler leaves \<open>m_mat[0] = 1\<close> and zero in the eight other entries of particle \<open>a\<close>,
  so \<open>m_mat[4] = 0\<close> and the cross terms are 0.
\<close>

theorem worked_example:
  assumes "\<forall>xij r h. r \<le> 1 \<longrightarrow> G xij r h = (- (xij ! 0), - (xij ! 1), - (xij ! 2))"
    and "9 \<le> length d_m_mat"
  shows "GradientCorrectionPreStep_run G 2 0 d_m_mat [1, 1] [1, 1] [0, 1] [0, 0] [0, 0] [1, 1]
           [0, 1] [0, 0] [0, 0] [1, 1] [0, 1] 2 =
         Inr ([1, 0, 0, 0, 0, 0, 0, 0, 0] @ drop 9 d_m_mat)"
  using assms by (rule two_particles_assembly)

theorem worked_example_witness:
  "GradientCorrectionPreStep_run (\<lambda>xij r h. (- (xij ! 0), - (xij ! 1), - (xij ! 2))) 2 0
       [7, 7, 7, 7, 7, 7, 7, 7, 7, 7, 7, 7, 7, 7, 7, 7, 7, 7]
       [1, 1] [1, 1] [0, 1] [0, 0] [0, 0] [1, 1] [0, 1] [0, 0] [0, 0] [1, 1] [0, 1] 2 =
     Inr [1, 0, 0, 0, 0, 0, 0, 0, 0, 7, 7, 7, 7, 7, 7, 7, 7, 7]"
  using worked_example [of "\<lambda>xij r h. (- (xij ! 0), - (xij ! 1), - (xij ! 2))"
      "[7, 7, 7, 7, 7, 7, 7, 7, 7, 7, 7, 7, 7, 7, 7, 7, 7, 7]"]
  by simp

text \<open>
  The claim states the gradient for \<open>r < 1\<close> only, and the pair is at \<open>r = 1\<close>. With
  the kernel of compact support that is \<open>-xij\<close> for \<open>r < 1\<close> and zero from \<open>r = 1\<close> on
  (there \<open>W(r) = max(0, 1 - r)\<close> is zero) the assembler leaves \<open>m_mat[0] = 0\<close>.
\<close>

theorem worked_example_compact_support:
  "GradientCorrectionPreStep_run
       (\<lambda>xij r h. if r < 1 then (- (xij ! 0), - (xij ! 1), - (xij ! 2)) else (0, 0, 0)) 2 0
       [0, 0, 0, 0, 0, 0, 0, 0, 0, 0, 0, 0, 0, 0, 0, 0, 0, 0]
       [1, 1] [1, 1] [0, 1] [0, 0] [0, 0] [1, 1] [0, 1] [0, 0] [0, 0] [1, 1] [0, 1] 2 =
     Inr [0, 0, 0, 0, 0, 0, 0, 0, 0, 0, 0, 0, 0, 0, 0, 0, 0, 0] \<and>
   [0, 0, 0, 0, 0, 0, 0, 0, 0, 0, 0, 0, 0, 0, 0, 0, 0, 0] ! 0 \<noteq> (1::real)"
proof -
  define G :: gradient_fn
    where "G = (\<lambda>xij r h. if r < 1 then (- (xij ! 0), - (xij ! 1), - (xij ! 2)) else (0, 0, 0))"
  define m :: "real list" where "m = [0, 0, 0, 0, 0, 0, 0, 0, 0, 0, 0, 0, 0, 0, 0, 0, 0, 0]"
  have m9: "9 \<le> length m" "drop 9 m = [0, 0, 0, 0, 0, 0, 0, 0, 0]" by (simp_all add: m_def)
  have self: "gcp_term G 0 0 0 1 [0, 1] [0, 0] [0, 0] [1, 1] [1, 1] [1, 1] 0 i j = 0" for i j
    by (simp add: gcp_term_def moment_term_def pair_xij_def vnorm_def)
  have other: "gcp_term G 0 0 0 1 [0, 1] [0, 0] [0, 0] [1, 1] [1, 1] [1, 1] (Suc 0) i j = 0"
    for i j
    by (simp add: G_def gcp_term_def moment_term_def pair_gradient_def pair_xij_def vnorm_def
        KERNEL_gradient_def)
  have ok: "dest_ok [0, 1] [0, 0] [0, 0] [1, 1] 0"
    "\<forall>b \<in> set (take 2 [0, 1]). neighbour_ok [0, 1] [0, 0] [0, 0] [1, 1] [1, 1] [1, 1] b"
    by (simp_all add: dest_ok_def neighbour_ok_def)
  have len: "9 * 0 + 9 \<le> length (mat_zero 0 m)" using m9 by simp
  have init: "GradientCorrectionPreStep_initialize 0 m = Inr (mat_zero 0 m)"
    using m9 by (simp add: GradientCorrectionPreStep_initialize_eq)
  have "(2::nat) \<le> 3" "(2::nat) \<le> length [0, 1::nat]" by simp_all
  note loop = GradientCorrectionPreStep_loop_all_eq [where G = G, OF this(1) len ok(1) this(2) ok(2)]
  have "GradientCorrectionPreStep_run G 2 0 m [1, 1] [1, 1] [0, 1] [0, 0] [0, 0] [1, 1]
           [0, 1] [0, 0] [0, 0] [1, 1] [0, 1] 2 =
        GradientCorrectionPreStep_loop_all G 2 0 (mat_zero 0 m) [1, 1] [1, 1] [0, 1] [0, 0]
           [0, 0] [1, 1] [0, 1] [0, 0] [0, 0] [1, 1] [0, 1] 2"
    by (simp only: GradientCorrectionPreStep_run_def init bind_r_Inr)
  also note loop
  also have "Inr (mat_add 0 (\<lambda>i j. if i < 2 \<and> j < 2
            then \<Sum>b\<leftarrow>take 2 [0, 1].
                   gcp_term G ([0, 1] ! 0) ([0, 0] ! 0) ([0, 0] ! 0) ([1, 1] ! 0) [0, 1] [0, 0]
                     [0, 0] [1, 1] [1, 1] [1, 1] b i j
            else 0) (mat_zero 0 m)) =
        (Inr [0, 0, 0, 0, 0, 0, 0, 0, 0, 0, 0, 0, 0, 0, 0, 0, 0, 0] :: real list result)"
    using m9 by (simp add: mat_add_mat_zero_first self other)
  finally show ?thesis unfolding G_def m_def by simp
qed

subsection \<open>The Mixed Assembler on an empty neighbour list\<close>

text \<open>
  Claim C10. With \<open>N_NBRS = 0\<close>, whatever the arrays of the sources hold (densities equal
  to zero included) and whatever the dimension, \<open>loop_all\<close> returns without an exception,
  with \<open>d_m_mat\<close> as it was, every entry a finite number, and \<open>d_cwij[d_idx] = 0\<close>; after \<open>initialize\<close> the nine entries
  of the particle are zero and they stay so. The particle has its entries in the arrays of
  the destination.
\<close>

theorem MixedKernelCorrectionPreStep_empty:
  assumes "dest_ok d_x d_y d_z d_h d_idx" "d_idx < length d_cwij"
    and "9 * d_idx + 9 \<le> length d_m_mat"
  shows "MixedKernelCorrectionPreStep_loop_all K G self_dim d_idx d_x d_y d_z d_h s_x s_y s_z s_h
           0 NBRS d_m_mat s_m s_rho d_cwij = Inr (map Some d_m_mat, d_cwij[d_idx := 0]) \<and>
         MixedKernelCorrectionPreStep_run K G self_dim d_idx d_x d_y d_z d_h s_x s_y s_z s_h
           0 NBRS d_m_mat s_m s_rho d_cwij =
           Inr (map Some (mat_zero d_idx d_m_mat), d_cwij[d_idx := 0]) \<and>
         (\<forall>e<9. mat_zero d_idx d_m_mat ! (9 * d_idx + e) = 0) \<and>
         d_cwij[d_idx := 0] ! d_idx = 0"
proof -
  have "MixedKernelCorrectionPreStep_run K G self_dim d_idx d_x d_y d_z d_h s_x s_y s_z s_h
           0 NBRS d_m_mat s_m s_rho d_cwij =
           Inr (map Some (mat_zero d_idx d_m_mat), d_cwij[d_idx := 0])"
    using assms(3)
    by (simp add: MixedKernelCorrectionPreStep_run_def MixedKernelCorrectionPreStep_initialize_eq
        MixedKernelCorrectionPreStep_no_neighbours [OF assms(1,2)])
  moreover have "\<forall>e<9. mat_zero d_idx d_m_mat ! (9 * d_idx + e) = 0"
    using assms(3) by (simp add: mat_zero_nth_in)
  ultimately show ?thesis
    using MixedKernelCorrectionPreStep_no_neighbours [OF assms(1,2)] assms(2) by simp
qed

theorem MixedKernelCorrectionPreStep_empty_witness:
  "MixedKernelCorrectionPreStep_loop_all (\<lambda>xij r h. 0) (\<lambda>xij r h. (0, 0, 0)) 2 0 [0] [0] [0] [1]
     [0] [0] [0] [1] 0 [] [0, 0, 0, 0, 0, 0, 0, 0, 0] [1] [0] [5] =
     Inr ([Some 0, Some 0, Some 0, Some 0, Some 0, Some 0, Some 0, Some 0, Some 0], [0]) \<and>
   MixedKernelCorrectionPreStep_run (\<lambda>xij r h. 0) (\<lambda>xij r h. (0, 0, 0)) 2 0 [0] [0] [0] [1]
     [0] [0] [0] [1] 0 [] [7, 7, 7, 7, 7, 7, 7, 7, 7] [1] [0] [5] =
     Inr ([Some 0, Some 0, Some 0, Some 0, Some 0, Some 0, Some 0, Some 0, Some 0], [0])"
proof -
  have z: "mat_zero 0 [7, 7, 7, 7, 7, 7, 7, 7, 7] = [0, 0, 0, 0, 0, 0, 0, 0, 0]"
    by (simp add: mat_zero_def upt_9)
  have h: "dest_ok [0] [0] [0] [1] 0" "0 < length [5::real]"
    "9 * 0 + 9 \<le> length [0, 0, 0, 0, 0, 0, 0, 0, 0::real]"
    "9 * 0 + 9 \<le> length [7, 7, 7, 7, 7, 7, 7, 7, 7::real]"
    by (simp_all add: dest_ok_def)
  from MixedKernelCorrectionPreStep_empty [OF h(1,2,3)]
    MixedKernelCorrectionPreStep_empty [OF h(1,2,4)]
  show ?thesis by (simp add: z)
qed

end
